theory Spec2Isabelle
  imports Complex_Main "HOL-Library.AList"
begin

section \<open>Hyperliquid trading signal API: data model\<close>

text \<open>
  The development embeds \<^verbatim>\<open>src/hyperliquid-api/main.py\<close>. Python floats are
  modelled by \<^typ>\<open>real\<close>: a real stands for the float nearest to it, arithmetic is
  exact, and there is no infinity and no NaN. Where the code turns a decimal string into a
  float and rounds that float again (\<^verbatim>\<open>format_price\<close>), the conversion is written
  out as \<open>to_double\<close>, since the second rounding depends on the binary value. A
  Python exception by a value of \<open>py_error\<close> on the left of a sum, \<^verbatim>\<open>None\<close> by
  \<open>JNull\<close> or \<open>None\<close>, and the process-wide dict \<^verbatim>\<open>active_positions\<close> by an
  association list in insertion order (a Python dict iterates in insertion order, and
  assigning to an existing key keeps its place).
\<close>

datatype py_error = ZeroDivisionError | TypeError | AttributeError | KeyError | ValueError
  | OverflowError | OtherError

text \<open>
  Values that arrive as JSON (request bodies, exchange responses), as \<^verbatim>\<open>json.loads\<close>
  builds them: a number written without fraction or exponent is a Python int (\<open>JInt\<close>,
  unbounded), any other number a float (\<open>JNum\<close>).
\<close>

datatype json = JNull | JBool bool | JInt int | JNum real | JStr string | JArr "json list"
  | JObj "(string \<times> json) list"

text \<open>Python truthiness, as used by \<^verbatim>\<open>if not x\<close>.\<close>

fun truthy :: "json \<Rightarrow> bool" where
  "truthy JNull = False"
| "truthy (JBool b) = b"
| "truthy (JInt n) = (n \<noteq> 0)"
| "truthy (JNum x) = (x \<noteq> 0)"
| "truthy (JStr s) = (s \<noteq> [])"
| "truthy (JArr xs) = (xs \<noteq> [])"
| "truthy (JObj kvs) = (kvs \<noteq> [])"

text \<open>
  A \<^verbatim>\<open>datetime\<close> is either timezone-aware (an instant, here in seconds since the
  epoch) or naive (wall-clock fields without an offset). \<^verbatim>\<open>datetime.fromisoformat\<close>
  returns a naive value for a string without an offset, such as
  \<^verbatim>\<open>2025-01-01T00:00:00\<close>.
\<close>

datatype datetime = Aware real | Naive real

text \<open>
  \<^verbatim>\<open>datetime.now(timezone.utc) >= d\<close>: the left operand is aware; ordering an aware
  against a naive datetime raises TypeError.
\<close>

definition now_ge :: "real \<Rightarrow> datetime \<Rightarrow> py_error + bool" where
  "now_ge now d = (case d of Aware t \<Rightarrow> Inr (now \<ge> t) | Naive _ \<Rightarrow> Inl TypeError)"

text \<open>The dict stored in \<^verbatim>\<open>active_positions\<close> for one signal (lines 581-590).\<close>

record trade_data =
  symbol :: string
  is_buy :: bool
  tp1 :: real
  tp2 :: real
  sl :: real
  max_exit_time :: datetime
  entry_price :: real
  order_result :: json

type_synonym registry = "(string \<times> trade_data) list"

section \<open>Exit monitor\<close>

text \<open>
  The f-strings of lines 422-444 are kept as structured values: which level was hit, the
  price, the comparison printed and the threshold.
\<close>

datatype level = TP1 | TP2 | SL

datatype cmp = GE | LE

datatype close_reason = Empty_reason | Hit level real cmp real | Max_exit_time_reached

text \<open>Lines 414-439: \<^verbatim>\<open>should_close\<close> and \<^verbatim>\<open>close_reason\<close> after the price checks.\<close>

definition price_checks :: "trade_data \<Rightarrow> real \<Rightarrow> bool \<times> close_reason" where
  "price_checks td current_price =
     (if is_buy td then
        (if current_price \<ge> tp1 td then (True, Hit TP1 current_price GE (tp1 td))
         else if current_price \<ge> tp2 td then (True, Hit TP2 current_price GE (tp2 td))
         else if current_price \<le> sl td then (True, Hit SL current_price LE (sl td))
         else (False, Empty_reason))
      else
        (if current_price \<le> tp1 td then (True, Hit TP1 current_price LE (tp1 td))
         else if current_price \<le> tp2 td then (True, Hit TP2 current_price LE (tp2 td))
         else if current_price \<ge> sl td then (True, Hit SL current_price GE (sl td))
         else (False, Empty_reason)))"

text \<open>Lines 414-444: the price checks, then the unconditional max-exit-time check.\<close>

definition exit_checks :: "real \<Rightarrow> trade_data \<Rightarrow> real \<Rightarrow> py_error + (bool \<times> close_reason)" where
  "exit_checks now td current_price =
     (case now_ge now (max_exit_time td) of
        Inl e \<Rightarrow> Inl e
      | Inr expired \<Rightarrow>
          Inr (if expired then (True, Max_exit_time_reached) else price_checks td current_price))"

text \<open>
  What the exchange and the clock answer while the monitor handles one registry entry:
  \<^verbatim>\<open>get_current_price\<close> (None or a float), \<^verbatim>\<open>get_position\<close> (None or the position
  dict), the clock, and what \<^verbatim>\<open>close_position\<close> returns if it is called.
\<close>

record observation =
  obs_price :: "real option"
  obs_position :: json
  obs_now :: real
  obs_close :: json

text \<open>\<^verbatim>\<open>del active_positions[signal_id]\<close> raises KeyError on a missing key.\<close>

definition del_position :: "registry \<Rightarrow> string \<Rightarrow> py_error + registry" where
  "del_position reg signal_id =
     (if signal_id \<in> fst ` set reg then Inr (AList.delete signal_id reg) else Inl KeyError)"

text \<open>
  The body of the \<^verbatim>\<open>for\<close> loop (lines 395-453) for one entry. The result is the
  registry afterwards and whether \<^verbatim>\<open>close_position\<close> was called, or the exception
  that leaves the loop body.
\<close>

definition monitor_entry ::
  "observation \<Rightarrow> registry \<Rightarrow> string \<Rightarrow> trade_data \<Rightarrow> py_error + (registry \<times> bool)" where
  "monitor_entry ob reg signal_id td =
     (case obs_price ob of
        None \<Rightarrow> Inr (reg, False)
      | Some current_price \<Rightarrow>
          if current_price = 0 then Inr (reg, False)
          else if \<not> truthy (obs_position ob) then
            (case del_position reg signal_id of Inl e \<Rightarrow> Inl e | Inr reg' \<Rightarrow> Inr (reg', False))
          else
            (case exit_checks (obs_now ob) td current_price of
               Inl e \<Rightarrow> Inl e
             | Inr (should_close, close_reason) \<Rightarrow>
                 if should_close then
                   (if truthy (obs_close ob) then
                      (case del_position reg signal_id of
                         Inl e \<Rightarrow> Inl e
                       | Inr reg' \<Rightarrow> Inr (reg', True))
                    else Inr (reg, True))
                 else Inr (reg, False)))"

text \<open>
  One pass of the \<^verbatim>\<open>while\<close> loop (lines 393-456): the entries of a snapshot of the
  registry are handled in order; an exception in one entry is caught outside the
  \<^verbatim>\<open>for\<close> loop, so the entries after it are not handled in this pass. The second
  component lists the signal ids for which \<^verbatim>\<open>close_position\<close> was called.
\<close>

fun monitor_entries ::
  "(string \<Rightarrow> observation) \<Rightarrow> (string \<times> trade_data) list \<Rightarrow> registry \<times> string list
     \<Rightarrow> registry \<times> string list" where
  "monitor_entries obs [] acc = acc"
| "monitor_entries obs ((signal_id, td) # rest) (reg, closes) =
     (case monitor_entry (obs signal_id) reg signal_id td of
        Inl e \<Rightarrow> (reg, closes)
      | Inr (reg', called) \<Rightarrow>
          monitor_entries obs rest (reg', if called then closes @ [signal_id] else closes))"

definition monitor_pass :: "(string \<Rightarrow> observation) \<Rightarrow> registry \<Rightarrow> registry \<times> string list" where
  "monitor_pass obs reg = monitor_entries obs reg (reg, [])"

subsection \<open>Example data\<close>

definition example_buy :: trade_data where
  "example_buy = \<lparr>symbol = ''BTC'', is_buy = True, tp1 = 110, tp2 = 120, sl = 90,
     max_exit_time = Aware 1000, entry_price = 100,
     order_result = JObj [(''status'', JStr ''ok'')]\<rparr>"

definition example_naive :: trade_data where
  "example_naive = example_buy\<lparr>max_exit_time := Naive 1000\<rparr>"

definition example_eth :: trade_data where
  "example_eth = \<lparr>symbol = ''ETH'', is_buy = True, tp1 = 2000, tp2 = 2200, sl = 1800,
     max_exit_time = Aware 1000, entry_price = 1900,
     order_result = JObj [(''status'', JStr ''ok'')]\<rparr>"

definition example_obs :: "real \<Rightarrow> real \<Rightarrow> json \<Rightarrow> observation" where
  "example_obs p now close_result =
     \<lparr>obs_price = Some p, obs_position = JObj [(''position'', JObj [(''coin'', JStr ''BTC'')])],
      obs_now = now, obs_close = close_result\<rparr>"

text \<open>
  The answers during one pass over two tracked positions: BTC trades at 111, ETH at 2100,
  both positions are live, the clock is at 500 and every close order succeeds.
\<close>

definition example_answers :: "string \<Rightarrow> observation" where
  "example_answers sid =
     (if sid = ''ETH_2'' then
        \<lparr>obs_price = Some 2100,
         obs_position = JObj [(''position'', JObj [(''coin'', JStr ''ETH'')])],
         obs_now = 500, obs_close = JObj [(''status'', JStr ''ok'')]\<rparr>
      else example_obs 111 500 (JObj [(''status'', JStr ''ok'')]))"


section \<open>Signal intake\<close>

text \<open>
  \<^verbatim>\<open>str.lower\<close>, \<^verbatim>\<open>str.upper\<close> and \<^verbatim>\<open>str.capitalize\<close> on ASCII text (a
  \<^typ>\<open>char\<close> is a byte; the case mappings of non-ASCII code points are not modelled).
\<close>

definition lower_char :: "char \<Rightarrow> char" where
  "lower_char c =
     (case map_of (zip ''ABCDEFGHIJKLMNOPQRSTUVWXYZ'' ''abcdefghijklmnopqrstuvwxyz'') c of
        Some l \<Rightarrow> l
      | None \<Rightarrow> c)"

definition upper_char :: "char \<Rightarrow> char" where
  "upper_char c =
     (case map_of (zip ''abcdefghijklmnopqrstuvwxyz'' ''ABCDEFGHIJKLMNOPQRSTUVWXYZ'') c of
        Some u \<Rightarrow> u
      | None \<Rightarrow> c)"

definition str_lower :: "string \<Rightarrow> string" where
  "str_lower s = map lower_char s"

definition str_upper :: "string \<Rightarrow> string" where
  "str_upper s = map upper_char s"

definition capitalize :: "string \<Rightarrow> string" where
  "capitalize s = (case s of [] \<Rightarrow> [] | c # cs \<Rightarrow> upper_char c # map lower_char cs)"

text \<open>\<^verbatim>\<open>s.replace('Z', '+00:00')\<close>.\<close>

definition replace_Z :: "string \<Rightarrow> string" where
  "replace_Z s = concat (map (\<lambda>c. if c = CHR ''Z'' then ''+00:00'' else [c]) s)"

text \<open>
  A method call \<^verbatim>\<open>v.lower()\<close>, \<^verbatim>\<open>v.upper()\<close> or \<^verbatim>\<open>v.replace(...)\<close> on a JSON
  value: only a string has these methods, any other value raises AttributeError.
\<close>

definition as_str :: "json \<Rightarrow> py_error + string" where
  "as_str v = (case v of JStr s \<Rightarrow> Inr s | _ \<Rightarrow> Inl AttributeError)"

text \<open>
  \<^verbatim>\<open>float(v)\<close> on a JSON value: a float is returned as it is, an int converts unless
  it rounds to \<open>2^1024\<close> or beyond (OverflowError: int too large to convert to float), a
  bool is 0 or 1, a string is parsed (ValueError if it is not a number), anything else
  raises TypeError. The grammar of numeric strings is a parameter.
\<close>

definition py_float :: "(string \<Rightarrow> real option) \<Rightarrow> json \<Rightarrow> py_error + real" where
  "py_float parse v =
     (case v of
        JNum x \<Rightarrow> Inr x
      | JInt n \<Rightarrow> if \<bar>n\<bar> \<ge> 2 ^ 1024 - 2 ^ 970 then Inl OverflowError else Inr (of_int n)
      | JBool b \<Rightarrow> Inr (if b then 1 else 0)
      | JStr s \<Rightarrow> (case parse s of Some x \<Rightarrow> Inr x | None \<Rightarrow> Inl ValueError)
      | _ \<Rightarrow> Inl TypeError)"

text \<open>\<^verbatim>\<open>d[k]\<close> on a dict: KeyError on a missing key.\<close>

definition subscript :: "(string \<times> json) list \<Rightarrow> string \<Rightarrow> py_error + json" where
  "subscript d k = (case map_of d k of Some v \<Rightarrow> Inr v | None \<Rightarrow> Inl KeyError)"

text \<open>Sequencing of computations that may raise.\<close>

definition then_do :: "'e + 'a \<Rightarrow> ('a \<Rightarrow> 'e + 'b) \<Rightarrow> 'e + 'b" where
  "then_do m f = (case m of Inl e \<Rightarrow> Inl e | Inr x \<Rightarrow> f x)"

text \<open>\<^verbatim>\<open>int(x)\<close> on a float truncates towards zero; \<^verbatim>\<open>str(n)\<close> prints an int in decimal.\<close>

definition py_int :: "real \<Rightarrow> int" where
  "py_int x = (if x \<ge> 0 then \<lfloor>x\<rfloor> else \<lceil>x\<rceil>)"

definition digit_char :: "nat \<Rightarrow> char" where
  "digit_char n = ''0123456789'' ! n"

fun str_of_nat :: "nat \<Rightarrow> string" where
  "str_of_nat n = (if n < 10 then [digit_char n] else str_of_nat (n div 10) @ [digit_char (n mod 10)])"

definition str_of_int :: "int \<Rightarrow> string" where
  "str_of_int i = (if i < 0 then CHR ''-'' # str_of_nat (nat (- i)) else str_of_nat (nat i))"

text \<open>
  What the handler of \<^verbatim>\<open>POST /signal\<close> obtains from outside while it runs: the parsers
  of the language, the configuration, the trader's answers and the clock.
\<close>

record intake_env =
  env_float :: "string \<Rightarrow> real option"
  env_fromisoformat :: "string \<Rightarrow> datetime option"
  env_load_config :: "py_error + unit"
  env_trader :: "py_error + unit"
  env_current_price :: "string \<Rightarrow> real option"
  env_risk_percentage :: "py_error + real"
  env_position_size :: "string \<Rightarrow> real \<Rightarrow> real \<Rightarrow> py_error + (real \<times> real)"
  env_place_order :: "string \<Rightarrow> bool \<Rightarrow> real \<Rightarrow> real \<Rightarrow> json"
  env_time :: real

text \<open>The values extracted from a request body (lines 485-520).\<close>

record signal =
  signal_message :: string
  sig_symbol :: string
  sig_tp1 :: real
  sig_tp2 :: real
  sig_sl :: real
  sig_current_price :: real
  sig_max_exit_time :: datetime

datatype error_body =
    No_JSON_data_provided
  | Invalid_data_format
  | Missing_required_field string
  | Error_parsing_signal_data py_error
  | Error_parsing_Max_Exit_Time py_error
  | Invalid_signal_message string
  | Configuration_error py_error
  | Trader_initialization_error py_error
  | Could_not_get_current_price string
  | Position_size_calculation_error py_error
  | Failed_to_place_order_no_result
  | Invalid_order_result_format
  | Failed_to_place_order json
  | Unhandled py_error

record success_body =
  body_message :: string
  body_signal_id :: string
  body_order_result :: json
  body_position_size :: real
  body_entry_price :: real
  body_tp1 :: real
  body_tp2 :: real
  body_sl :: real

datatype response = Success success_body | Failure nat error_body

definition required_fields :: "string list" where
  "required_fields =
     [''Signal Message'', ''Token Mentioned'', ''TP1'', ''TP2'', ''SL'', ''Max Exit Time'']"

text \<open>Lines 485-490, in the order of the source.\<close>

definition extract_basic ::
  "intake_env \<Rightarrow> (string \<times> json) list \<Rightarrow> py_error + (string \<times> string \<times> real \<times> real \<times> real \<times> real)" where
  "extract_basic env d =
     then_do (then_do (subscript d ''Signal Message'') as_str) (\<lambda>m.
     then_do (then_do (subscript d ''Token Mentioned'') as_str) (\<lambda>t.
     then_do (then_do (subscript d ''TP1'') (py_float (env_float env))) (\<lambda>t1.
     then_do (then_do (subscript d ''TP2'') (py_float (env_float env))) (\<lambda>t2.
     then_do (then_do (subscript d ''SL'') (py_float (env_float env))) (\<lambda>s.
     then_do (py_float (env_float env)
               (case map_of d ''Current Price'' of Some v \<Rightarrow> v | None \<Rightarrow> JNum 0)) (\<lambda>current_price.
     Inr (str_lower m, str_upper t, t1, t2, s, current_price)))))))"

text \<open>Lines 500-511.\<close>

definition parse_iso :: "intake_env \<Rightarrow> string \<Rightarrow> py_error + datetime" where
  "parse_iso env s =
     (case env_fromisoformat env (replace_Z s) of Some t \<Rightarrow> Inr t | None \<Rightarrow> Inl ValueError)"

definition parse_max_exit_time :: "intake_env \<Rightarrow> (string \<times> json) list \<Rightarrow> py_error + datetime" where
  "parse_max_exit_time env d =
     then_do (subscript d ''Max Exit Time'') (\<lambda>max_exit_str.
       case max_exit_str of
         JObj kvs \<Rightarrow>
           (if ''$date'' \<in> fst ` set kvs then
              then_do (then_do (subscript kvs ''$date'') as_str) (parse_iso env)
            else Inl ValueError)
       | JStr s \<Rightarrow> parse_iso env s
       | _ \<Rightarrow> Inl ValueError)"

text \<open>
  An exception of the three classes named in the inner handlers (lines 494 and 515) gives
  status 400; any other exception reaches the handler of line 612 and gives status 500.
\<close>

definition caught_inside :: "py_error \<Rightarrow> bool" where
  "caught_inside e = (e = KeyError \<or> e = TypeError \<or> e = ValueError)"

text \<open>Lines 465-522: everything the handler checks before it loads the configuration.\<close>

definition validate_signal :: "intake_env \<Rightarrow> json \<Rightarrow> response + signal" where
  "validate_signal env signal_data =
     (if \<not> truthy signal_data then Inl (Failure 400 No_JSON_data_provided)
      else case signal_data of
        JObj d \<Rightarrow>
          (case find (\<lambda>field. field \<notin> fst ` set d) required_fields of
             Some field \<Rightarrow> Inl (Failure 400 (Missing_required_field field))
           | None \<Rightarrow>
               (case extract_basic env d of
                  Inl e \<Rightarrow>
                    if caught_inside e then Inl (Failure 400 (Error_parsing_signal_data e))
                    else Inl (Failure 500 (Unhandled e))
                | Inr (m, t, t1, t2, s, current_price) \<Rightarrow>
                    (case parse_max_exit_time env d of
                       Inl e \<Rightarrow>
                         if caught_inside e then Inl (Failure 400 (Error_parsing_Max_Exit_Time e))
                         else Inl (Failure 500 (Unhandled e))
                     | Inr exit_time \<Rightarrow>
                         if m \<noteq> ''buy'' \<and> m \<noteq> ''sell'' then
                           Inl (Failure 400 (Invalid_signal_message m))
                         else
                           Inr \<lparr>signal_message = m, sig_symbol = t, sig_tp1 = t1, sig_tp2 = t2,
                                sig_sl = s, sig_current_price = current_price,
                                sig_max_exit_time = exit_time\<rparr>)))
      | _ \<Rightarrow> Inl (Failure 400 Invalid_data_format))"

text \<open>The process-wide state of the module (lines 26-28).\<close>

record app_state =
  active_positions :: registry
  monitoring_active :: bool

text \<open>A call of \<^verbatim>\<open>trader.place_order(symbol, is_buy, size, price, "market")\<close>.\<close>

datatype order_call = Place_order string bool real real

text \<open>
  Lines 580-598: the signal id, the registry entry and the monitoring flag.
\<close>

definition make_signal_id :: "string \<Rightarrow> real \<Rightarrow> string" where
  "make_signal_id name t = name @ ''_'' @ str_of_int (py_int t)"

definition make_trade_data :: "signal \<Rightarrow> real \<Rightarrow> json \<Rightarrow> trade_data" where
  "make_trade_data sg current_price res =
     \<lparr>symbol = sig_symbol sg, is_buy = (signal_message sg = ''buy''), tp1 = sig_tp1 sg,
      tp2 = sig_tp2 sg, sl = sig_sl sg, max_exit_time = sig_max_exit_time sg,
      entry_price = current_price, order_result = res\<rparr>"

definition register_position :: "app_state \<Rightarrow> string \<Rightarrow> trade_data \<Rightarrow> app_state" where
  "register_position st sid td =
     \<lparr>active_positions = AList.update sid td (active_positions st), monitoring_active = True\<rparr>"

text \<open>
  Lines 524-610, for a validated signal. The result is the response, the state afterwards
  and the calls of \<^verbatim>\<open>place_order\<close> that were made.
\<close>

definition execute_signal ::
  "intake_env \<Rightarrow> app_state \<Rightarrow> signal \<Rightarrow> response \<times> app_state \<times> order_call list" where
  "execute_signal env st sg =
     (case env_load_config env of
        Inl e \<Rightarrow> (Failure 500 (Configuration_error e), st, [])
      | Inr _ \<Rightarrow>
     (case env_trader env of
        Inl e \<Rightarrow> (Failure 500 (Trader_initialization_error e), st, [])
      | Inr _ \<Rightarrow>
     (case (if sig_current_price sg = 0 then
              (case env_current_price env (sig_symbol sg) of
                 None \<Rightarrow> None
               | Some p \<Rightarrow> if p = 0 then None else Some p)
            else Some (sig_current_price sg)) of
        None \<Rightarrow> (Failure 400 (Could_not_get_current_price (sig_symbol sg)), st, [])
      | Some current_price \<Rightarrow>
     (case then_do (env_risk_percentage env)
             (env_position_size env (sig_symbol sg) current_price) of
        Inl e \<Rightarrow> (Failure 500 (Position_size_calculation_error e), st, [])
      | Inr (position_size_usd, sz) \<Rightarrow>
          (let buy = (signal_message sg = ''buy'');
               calls = [Place_order (sig_symbol sg) buy sz current_price];
               res = env_place_order env (sig_symbol sg) buy sz current_price
           in if \<not> truthy res then (Failure 500 Failed_to_place_order_no_result, st, calls)
              else case res of
                JObj kvs \<Rightarrow>
                  if map_of kvs ''status'' \<noteq> Some (JStr ''ok'') then
                    (Failure 500 (Failed_to_place_order res), st, calls)
                  else
                    (let sid = make_signal_id (sig_symbol sg) (env_time env)
                     in (Success \<lparr>body_message = capitalize (signal_message sg) @ '' order placed for ''
                                      @ sig_symbol sg,
                                    body_signal_id = sid, body_order_result = res,
                                    body_position_size = sz, body_entry_price = current_price,
                                    body_tp1 = sig_tp1 sg, body_tp2 = sig_tp2 sg,
                                    body_sl = sig_sl sg\<rparr>,
                         register_position st sid (make_trade_data sg current_price res),
                         calls))
              | _ \<Rightarrow> (Failure 500 Invalid_order_result_format, st, calls))))))"

definition call_is_buy :: "order_call \<Rightarrow> bool" where
  "call_is_buy c = (case c of Place_order _ b _ _ \<Rightarrow> b)"

text \<open>The handler \<^verbatim>\<open>receive_signal\<close> (lines 461-614).\<close>

definition receive_signal ::
  "intake_env \<Rightarrow> app_state \<Rightarrow> json \<Rightarrow> response \<times> app_state \<times> order_call list" where
  "receive_signal env st signal_data =
     (case validate_signal env signal_data of
        Inl r \<Rightarrow> (r, st, [])
      | Inr sg \<Rightarrow> execute_signal env st sg)"

subsection \<open>Example requests\<close>

definition example_env :: "real \<Rightarrow> intake_env" where
  "example_env t =
     \<lparr>env_float = (\<lambda>s. if s = ''110'' then Some 110 else None),
      env_fromisoformat =
        (\<lambda>s. if s = ''2025-01-01T00:00:00+00:00'' then Some (Aware 1735689600)
             else if s = ''2025-01-01T00:00:00'' then Some (Naive 1735689600)
             else None),
      env_load_config = Inr (),
      env_trader = Inr (),
      env_current_price = (\<lambda>s. if s = ''BTC'' then Some 100 else None),
      env_risk_percentage = Inr 10,
      env_position_size = (\<lambda>s p r. Inr (100, 100 / p)),
      env_place_order = (\<lambda>s b sz p. JObj [(''status'', JStr ''ok'')]),
      env_time = t\<rparr>"

definition example_fields :: "json \<Rightarrow> json \<Rightarrow> real \<Rightarrow> (string \<times> json) list" where
  "example_fields msg token t1 =
     [(''Signal Message'', msg), (''Token Mentioned'', token), (''TP1'', JNum t1),
      (''TP2'', JNum 120), (''SL'', JNum 90),
      (''Max Exit Time'', JStr ''2025-01-01T00:00:00Z''), (''Current Price'', JNum 100)]"

definition example_overflow_fields :: "(string \<times> json) list" where
  "example_overflow_fields =
     [(''Signal Message'', JStr ''hold''), (''Token Mentioned'', JStr ''btc''),
      (''TP1'', JInt (10 ^ 400)), (''TP2'', JNum 120), (''SL'', JNum 90),
      (''Max Exit Time'', JStr ''2025-01-01T00:00:00Z''), (''Current Price'', JNum 100)]"

definition empty_state :: app_state where
  "empty_state = \<lparr>active_positions = [], monitoring_active = False\<rparr>"

section \<open>Trader: market metadata, order sizing and pricing\<close>

text \<open>One entry of \<^verbatim>\<open>_asset_specs\<close> (lines 56-61).\<close>

record asset_spec =
  asset_id :: nat
  sz_decimals :: int
  max_leverage :: int
  only_isolated :: bool

type_synonym asset_specs = "string \<rightharpoonup> asset_spec"

text \<open>
  One element of \<^verbatim>\<open>meta['universe']\<close> as the exchange sends it; the three optional
  keys are read with \<^verbatim>\<open>asset.get\<close> and a default.
\<close>

record universe_entry =
  entry_name :: string
  entry_szDecimals :: "int option"
  entry_maxLeverage :: "int option"
  entry_onlyIsolated :: "bool option"

text \<open>Lines 55-61: the loop over \<^verbatim>\<open>enumerate(meta['universe'])\<close>, from index \<open>idx\<close>.\<close>

fun load_universe :: "nat \<Rightarrow> universe_entry list \<Rightarrow> asset_specs \<Rightarrow> asset_specs" where
  "load_universe idx [] specs = specs"
| "load_universe idx (asset # rest) specs =
     load_universe (Suc idx) rest
       (specs(entry_name asset \<mapsto>
          \<lparr>asset_id = idx,
           sz_decimals = (case entry_szDecimals asset of Some d \<Rightarrow> d | None \<Rightarrow> 4),
           max_leverage = (case entry_maxLeverage asset of Some l \<Rightarrow> l | None \<Rightarrow> 1),
           only_isolated = (case entry_onlyIsolated asset of Some b \<Rightarrow> b | None \<Rightarrow> False)\<rparr>))"

text \<open>
  \<^verbatim>\<open>get_asset_specs\<close> (lines 47-68). The first argument is the answer of
  \<^verbatim>\<open>self.info.meta()\<close>: an exception, or the universe list if the key is present. The
  second is the cache \<^verbatim>\<open>self._asset_specs\<close>; the result is the mapping returned and the
  cache afterwards.
\<close>

definition get_asset_specs ::
  "py_error + universe_entry list option \<Rightarrow> asset_specs option \<Rightarrow> asset_specs \<times> asset_specs option" where
  "get_asset_specs meta cache =
     (case cache of
        Some specs \<Rightarrow> (specs, cache)
      | None \<Rightarrow>
          (let specs = (case meta of
                          Inl e \<Rightarrow> Map.empty
                        | Inr None \<Rightarrow> Map.empty
                        | Inr (Some universe) \<Rightarrow> load_universe 0 universe Map.empty)
           in (specs, Some specs)))"

text \<open>
  Float division raises ZeroDivisionError on a zero divisor. A \<^verbatim>\<open>try\<close> block whose
  handler is \<^verbatim>\<open>except Exception\<close> catches every exception of its body; the handler may
  raise itself.
\<close>

definition py_div :: "real \<Rightarrow> real \<Rightarrow> py_error + real" where
  "py_div a b = (if b = 0 then Inl ZeroDivisionError else Inr (a / b))"

definition try_except :: "py_error + 'a \<Rightarrow> (py_error \<Rightarrow> py_error + 'a) \<Rightarrow> py_error + 'a" where
  "try_except body handler = (case body of Inl e \<Rightarrow> handler e | Inr x \<Rightarrow> Inr x)"

text \<open>
  \<^verbatim>\<open>get_min_order_size\<close> (lines 70-101). In this and the following functions
  \<open>specs\<close> is the mapping that \<^verbatim>\<open>self.get_asset_specs()\<close> returns and \<open>coin\<close>
  is the parameter \<^verbatim>\<open>symbol\<close>.
\<close>

definition get_min_order_size :: "asset_specs \<Rightarrow> string \<Rightarrow> real \<Rightarrow> py_error + real" where
  "get_min_order_size specs coin current_price =
     try_except
       (case specs coin of
          None \<Rightarrow>
            then_do (py_div 10 current_price) (\<lambda>q. Inr (max q (1 / 10000)))
        | Some spec \<Rightarrow>
            (let min_lot_size = 10 powi (- sz_decimals spec)
             in then_do (py_div 10 current_price) (\<lambda>min_size_for_usd.
                  Inr (max min_lot_size min_size_for_usd))))
       (\<lambda>e. then_do (py_div 10 current_price) (\<lambda>q. Inr (max q (1 / 1000))))"

text \<open>
  Rounding of an exact value to the nearest integer, ties to even, and \<^verbatim>\<open>round(x, n)\<close>
  built on it (\<open>n\<close> may be negative).
\<close>

definition round_half_even :: "real \<Rightarrow> int" where
  "round_half_even x =
     (let f = \<lfloor>x\<rfloor>; r = x - of_int f
      in if r < 1 / 2 then f else if r > 1 / 2 then f + 1 else if even f then f else f + 1)"

definition py_round :: "real \<Rightarrow> int \<Rightarrow> real" where
  "py_round x ndigits = of_int (round_half_even (x * 10 powi ndigits)) / 10 powi ndigits"

text \<open>\<^verbatim>\<open>validate_and_adjust_size\<close> (lines 103-128).\<close>

definition validate_and_adjust_size :: "asset_specs \<Rightarrow> string \<Rightarrow> real \<Rightarrow> real \<Rightarrow> py_error + real" where
  "validate_and_adjust_size specs coin sz current_price =
     try_except
       (then_do (get_min_order_size specs coin current_price) (\<lambda>min_size.
          if sz < min_size then Inr (min_size * (101 / 100))
          else (case specs coin of
                  Some spec \<Rightarrow> Inr (py_round sz (sz_decimals spec))
                | None \<Rightarrow> Inr sz)))
       (\<lambda>e. Inr sz)"

text \<open>
  The decimal exponent of a nonzero number: the \<open>e\<close> with \<open>10^e \<le> |x| < 10^(e+1)\<close>,
  found by repeated division or multiplication by ten.
\<close>

function exponent_up :: "real \<Rightarrow> int" where
  "exponent_up x = (if x < 10 then 0 else exponent_up (x / 10) + 1)"
  by pat_completeness auto
termination
proof (relation "measure (\<lambda>x. nat \<lfloor>x\<rfloor>)")
  show "wf (measure (\<lambda>x. nat \<lfloor>x\<rfloor>))" by simp
next
  fix x :: real
  assume "\<not> x < 10"
  then have x: "10 \<le> x" by simp
  have "of_int \<lfloor>x / 10\<rfloor> \<le> x / 10" by (rule of_int_floor_le)
  also have "\<dots> \<le> x - 1" using x by simp
  also have "\<dots> < of_int \<lfloor>x\<rfloor>" by linarith
  finally have "\<lfloor>x / 10\<rfloor> < \<lfloor>x\<rfloor>" by simp
  moreover have "0 < \<lfloor>x\<rfloor>" using x by linarith
  ultimately show "(x / 10, x) \<in> measure (\<lambda>x. nat \<lfloor>x\<rfloor>)" by simp
qed

function exponent_down :: "real \<Rightarrow> int" where
  "exponent_down x = (if x \<le> 0 \<or> 1 \<le> x then 0 else exponent_down (x * 10) - 1)"
  by pat_completeness auto
termination
proof (relation "measure (\<lambda>x. nat \<lceil>1 / x\<rceil>)")
  show "wf (measure (\<lambda>x. nat \<lceil>1 / x\<rceil>))" by simp
next
  fix x :: real
  assume a: "\<not> (x \<le> 0 \<or> 1 \<le> x)"
  then have x: "0 < x" "x < 1" by auto
  then have big: "1 < 1 / x" by simp
  define c where "c = \<lceil>1 / x\<rceil>"
  have two: "2 \<le> c" unfolding c_def using big by linarith
  have "\<lceil>1 / (x * 10)\<rceil> < c"
  proof -
    have "1 / (x * 10) = (1 / x) / 10" by simp
    also have "\<dots> \<le> of_int c / 10" unfolding c_def by (simp add: divide_right_mono)
    also have "\<dots> \<le> of_int (c - 1)" using two by simp
    finally show ?thesis by (simp only: ceiling_less_iff)
  qed
  moreover have "0 < c" using two by simp
  ultimately have "nat \<lceil>1 / (x * 10)\<rceil> < nat c" by (simp only: zless_nat_conj)
  then show "(x * 10, x) \<in> measure (\<lambda>x. nat \<lceil>1 / x\<rceil>)"
    unfolding c_def by (simp only: in_measure)
qed

declare exponent_up.simps [simp del] exponent_down.simps [simp del]

definition decimal_exponent :: "real \<Rightarrow> int" where
  "decimal_exponent x = (if 1 \<le> \<bar>x\<bar> then exponent_up \<bar>x\<bar> else exponent_down \<bar>x\<bar>)"

text \<open>
  \<^verbatim>\<open>f"{price:.5g}"\<close>: the number that the string denotes, which is the value
  rounded to five significant decimal digits (format \<^verbatim>\<open>g\<close> rounds the exact value
  of the float correctly, ties to even; zero stays zero).
\<close>

definition format_5g :: "real \<Rightarrow> real" where
  "format_5g x =
     (if x = 0 then 0
      else (let e = decimal_exponent x
            in of_int (round_half_even (x / 10 powi (e - 4))) * 10 powi (e - 4)))"

text \<open>
  The binary exponent of a nonzero number: the \<open>e\<close> with \<open>2^e \<le> |x| < 2^(e+1)\<close>.
\<close>

function binary_up :: "real \<Rightarrow> int" where
  "binary_up x = (if x < 2 then 0 else binary_up (x / 2) + 1)"
  by pat_completeness auto
termination
proof (relation "measure (\<lambda>x. nat \<lfloor>x\<rfloor>)")
  show "wf (measure (\<lambda>x. nat \<lfloor>x\<rfloor>))" by simp
next
  fix x :: real
  assume "\<not> x < 2"
  then have x: "2 \<le> x" by simp
  have "of_int \<lfloor>x / 2\<rfloor> \<le> x / 2" by (rule of_int_floor_le)
  also have "\<dots> \<le> x - 1" using x by simp
  also have "\<dots> < of_int \<lfloor>x\<rfloor>" by linarith
  finally have "\<lfloor>x / 2\<rfloor> < \<lfloor>x\<rfloor>" by simp
  moreover have "0 < \<lfloor>x\<rfloor>" using x by linarith
  ultimately show "(x / 2, x) \<in> measure (\<lambda>x. nat \<lfloor>x\<rfloor>)" by simp
qed

function binary_down :: "real \<Rightarrow> int" where
  "binary_down x = (if x \<le> 0 \<or> 1 \<le> x then 0 else binary_down (x * 2) - 1)"
  by pat_completeness auto
termination
proof (relation "measure (\<lambda>x. nat \<lceil>1 / x\<rceil>)")
  show "wf (measure (\<lambda>x. nat \<lceil>1 / x\<rceil>))" by simp
next
  fix x :: real
  assume a: "\<not> (x \<le> 0 \<or> 1 \<le> x)"
  then have x: "0 < x" "x < 1" by auto
  then have big: "1 < 1 / x" by simp
  define c where "c = \<lceil>1 / x\<rceil>"
  have two: "2 \<le> c" unfolding c_def using big by linarith
  have "\<lceil>1 / (x * 2)\<rceil> < c"
  proof -
    have "1 / (x * 2) = (1 / x) / 2" by simp
    also have "\<dots> \<le> of_int c / 2" unfolding c_def by (simp add: divide_right_mono)
    also have "\<dots> \<le> of_int (c - 1)" using two by simp
    finally show ?thesis by (simp only: ceiling_less_iff)
  qed
  moreover have "0 < c" using two by simp
  ultimately have "nat \<lceil>1 / (x * 2)\<rceil> < nat c" by (simp only: zless_nat_conj)
  then show "(x * 2, x) \<in> measure (\<lambda>x. nat \<lceil>1 / x\<rceil>)"
    unfolding c_def by (simp only: in_measure)
qed

declare binary_up.simps [simp del] binary_down.simps [simp del]

definition binary_exponent :: "real \<Rightarrow> int" where
  "binary_exponent x = (if 1 \<le> \<bar>x\<bar> then binary_up \<bar>x\<bar> else binary_down \<bar>x\<bar>)"

text \<open>
  \<^verbatim>\<open>float(s)\<close> on a decimal string: the float nearest to the number written, that is
  the number rounded to a significand of 53 bits, ties to even. (The exponent range of the
  model is unbounded: overflow to infinity and gradual underflow are left out.)
\<close>

definition to_double :: "real \<Rightarrow> real" where
  "to_double x =
     (if x = 0 then 0
      else (let e = binary_exponent x
            in of_int (round_half_even (x / 2 powi (e - 52))) * 2 powi (e - 52)))"

text \<open>
  \<^verbatim>\<open>format_price\<close> (lines 130-155). \<open>formatted_price\<close> is the float that
  \<^verbatim>\<open>float(f"{price:.5g}")\<close> gives, and the second rounding works on the exact value
  of that float.
\<close>

definition format_price :: "asset_specs \<Rightarrow> real \<Rightarrow> string \<Rightarrow> py_error + real" where
  "format_price specs price coin =
     try_except
       (let formatted_price = to_double (format_5g price)
        in case specs coin of
             Some spec \<Rightarrow>
               (let decimals = (if asset_id spec \<ge> 10000 then 8 else 6);
                    final_decimals = decimals - sz_decimals spec
                in Inr (py_round formatted_price final_decimals))
           | None \<Rightarrow> Inr formatted_price)
       (\<lambda>e. Inr (to_double (format_5g price)))"

text \<open>
  \<^verbatim>\<open>get_market_price\<close> (lines 157-182); \<open>mid\<close> is what \<^verbatim>\<open>get_current_price\<close>
  returns (None or a float), and a result \<open>None\<close> is Python's \<^verbatim>\<open>None\<close>.
\<close>

definition get_market_price ::
  "asset_specs \<Rightarrow> real option \<Rightarrow> string \<Rightarrow> bool \<Rightarrow> py_error + real option" where
  "get_market_price specs mid coin buy =
     try_except
       (case mid of
          None \<Rightarrow> Inr None
        | Some current_price \<Rightarrow>
            if current_price = 0 then Inr None
            else (let slippage = 2 / 100;
                      market_price = (if buy then current_price * (1 + slippage)
                                      else current_price * (1 - slippage))
                  in then_do (format_price specs market_price coin) (\<lambda>p. Inr (Some p))))
       (\<lambda>e. Inr None)"

text \<open>What \<^verbatim>\<open>get_vault_balance\<close> returns when it does not return None (lines 284-288).\<close>

record vault_info =
  total_account_value :: real
  withdrawable :: real

text \<open>
  \<^verbatim>\<open>calculate_position_size\<close> (lines 297-335); \<open>vault\<close> is the result of
  \<^verbatim>\<open>get_vault_balance\<close>.
\<close>

definition calculate_position_size ::
  "asset_specs \<Rightarrow> vault_info option \<Rightarrow> string \<Rightarrow> real \<Rightarrow> real \<Rightarrow> py_error + (real \<times> real)" where
  "calculate_position_size specs vault coin current_price percentage =
     try_except
       (case vault of
          None \<Rightarrow> then_do (py_div 100 current_price) (\<lambda>fallback_size. Inr (100, fallback_size))
        | Some info \<Rightarrow>
            (let total_value = total_account_value info;
                 position_size_usd = total_value * (percentage / 100)
             in then_do (get_min_order_size specs coin current_price) (\<lambda>min_order_size.
                  (let min_position_usd = min_order_size * current_price;
                       position_size_usd' =
                         (if position_size_usd < min_position_usd then min_position_usd * (11 / 10)
                          else position_size_usd)
                   in then_do (py_div position_size_usd' current_price) (\<lambda>position_sz.
                      then_do (validate_and_adjust_size specs coin position_sz current_price)
                        (\<lambda>adjusted. Inr (adjusted * current_price, adjusted)))))))
       (\<lambda>e. then_do (if coin \<noteq> [] then get_min_order_size specs coin current_price
                     else Inr (1 / 1000))
              (\<lambda>min_size. Inr (if min_size \<noteq> 0 then min_size * current_price else 100, min_size)))"

subsection \<open>Example market metadata\<close>

definition example_universe :: "universe_entry list" where
  "example_universe =
     [\<lparr>entry_name = ''BTC'', entry_szDecimals = Some 5, entry_maxLeverage = Some 40,
       entry_onlyIsolated = None\<rparr>,
      \<lparr>entry_name = ''ETH'', entry_szDecimals = Some 4, entry_maxLeverage = Some 25,
       entry_onlyIsolated = None\<rparr>,
      \<lparr>entry_name = ''DOGE'', entry_szDecimals = Some 0, entry_maxLeverage = None,
       entry_onlyIsolated = Some True\<rparr>]"

definition example_specs :: asset_specs where
  "example_specs = fst (get_asset_specs (Inr (Some example_universe)) None)"

text \<open>
  What the rounding functions are meant to achieve, stated independently of them: a number
  with at most five significant decimal digits is an integer of fewer than six digits
  times a power of ten, and a number with at most \<open>n\<close> decimal places is an integer
  divided by \<open>10^n\<close>.
\<close>

definition at_most_5_digits :: "real \<Rightarrow> bool" where
  "at_most_5_digits y \<longleftrightarrow> (\<exists>K j. y = of_int K * 10 powi j \<and> \<bar>K\<bar> < 100000)"

definition decimal_places :: "int \<Rightarrow> real \<Rightarrow> bool" where
  "decimal_places n y \<longleftrightarrow> (\<exists>k. y = of_int k / 10 powi n)"

definition example_spot_specs :: asset_specs where
  "example_spot_specs =
     [''PURR'' \<mapsto> \<lparr>asset_id = 10000, sz_decimals = 2, max_leverage = 1, only_isolated = False\<rparr>]"

definition example_naive_fields :: "(string \<times> json) list" where
  "example_naive_fields =
     [(''Signal Message'', JStr ''buy''), (''Token Mentioned'', JStr ''BTC''), (''TP1'', JNum 110),
      (''TP2'', JNum 120), (''SL'', JNum 90),
      (''Max Exit Time'', JStr ''2025-01-01T00:00:00''), (''Current Price'', JNum 100)]"
section \<open>Exit monitor: properties\<close>

lemma price_checks_TP2_buy:
  "is_buy td \<Longrightarrow> tp1 td \<le> tp2 td \<Longrightarrow> price_checks td p \<noteq> (b, Hit TP2 p' c t)"
  by (simp add: price_checks_def)

lemma price_checks_TP2_sell:
  "\<not> is_buy td \<Longrightarrow> tp2 td \<le> tp1 td \<Longrightarrow> price_checks td p \<noteq> (b, Hit TP2 p' c t)"
  by (simp add: price_checks_def)

lemma exit_checks_aware:
  "max_exit_time td = Aware t \<Longrightarrow>
   exit_checks now td p =
     Inr (if now \<ge> t then (True, Max_exit_time_reached) else price_checks td p)"
  by (simp add: exit_checks_def now_ge_def)

lemma exit_checks_naive: "max_exit_time td = Naive t \<Longrightarrow> exit_checks now td p = Inl TypeError"
  by (simp add: exit_checks_def now_ge_def)

lemma exit_checks_reason:
  "exit_checks now td p = Inr (b, r) \<Longrightarrow> r = Max_exit_time_reached \<or> (b, r) = price_checks td p"
  by (cases "max_exit_time td") (auto simp: exit_checks_aware exit_checks_naive split: if_splits)

lemma map_of_delete_self: "map_of (AList.delete k reg) k = None"
  by (simp add: delete_conv)

lemma map_of_delete_other: "k' \<noteq> k \<Longrightarrow> map_of (AList.delete k reg) k' = map_of reg k'"
  by (simp add: delete_conv)

lemma del_position_present:
  "map_of reg signal_id = Some td \<Longrightarrow> del_position reg signal_id = Inr (AList.delete signal_id reg)"
  by (auto simp: del_position_def dest: map_of_SomeD intro: rev_image_eqI)


lemma monitor_entry_examined:
  assumes "obs_price ob = Some p" and "p \<noteq> 0" and "truthy (obs_position ob)"
  shows "monitor_entry ob reg signal_id td =
     (case exit_checks (obs_now ob) td p of
        Inl e \<Rightarrow> Inl e
      | Inr (should_close, close_reason) \<Rightarrow>
          if should_close then
            (if truthy (obs_close ob) then
               (case del_position reg signal_id of Inl e \<Rightarrow> Inl e | Inr reg' \<Rightarrow> Inr (reg', True))
             else Inr (reg, True))
          else Inr (reg, False))"
  using assms by (simp add: monitor_entry_def)

text \<open>
  What the monitor does with a position whose max exit time is timezone-aware, when a
  price is available and the live position exists: the time-based exit overrides the
  price-based one, the price checks run in the order TP1, TP2, SL, and
  \<^verbatim>\<open>close_position\<close> is called exactly when one of the conditions holds.
\<close>

lemma monitor_entry_aware:
  assumes "obs_price ob = Some p" and "p \<noteq> 0" and "truthy (obs_position ob)"
    and "max_exit_time td = Aware t" and "map_of reg signal_id = Some td"
  shows "monitor_entry ob reg signal_id td =
     (let (should_close, close_reason) =
            (if obs_now ob \<ge> t then (True, Max_exit_time_reached) else price_checks td p)
      in if should_close then
           Inr (if truthy (obs_close ob) then AList.delete signal_id reg else reg, True)
         else Inr (reg, False))"
  using assms
  by (simp add: monitor_entry_examined exit_checks_aware del_position_present
      split: prod.splits)

text \<open>
  C1 (exit evaluation). The claim holds for every tracked position whose max exit time is
  timezone-aware (\<open>monitor_entry_aware\<close>, \<open>exit_checks_aware\<close>). Signal intake also
  accepts an ISO-8601 string without an offset, which parses to a naive datetime; for such
  a position the comparison with the aware current time raises TypeError on every pass,
  so no close is triggered although the price has reached TP1, and the pass is abandoned.
  The theorem evaluates the monitor at such a position: buy, tp1 = 110, price 111.
\<close>

theorem naive_max_exit_time_blocks_exit:
  "price_checks example_naive 111 = (True, Hit TP1 111 GE 110)
   \<and> monitor_entry (example_obs 111 2000 (JObj [(''status'', JStr ''ok'')]))
        [(''BTC_1'', example_naive)] ''BTC_1'' example_naive = Inl TypeError
   \<and> monitor_pass (\<lambda>_. example_obs 111 2000 (JObj [(''status'', JStr ''ok'')]))
        [(''BTC_1'', example_naive)] = ([(''BTC_1'', example_naive)], [])"
  by (simp add: monitor_pass_def monitor_entry_def exit_checks_def now_ge_def price_checks_def
      example_naive_def example_buy_def example_obs_def)

text \<open>
  What the loop body does once the exit evaluation of a position has completed with
  \<^verbatim>\<open>should_close\<close>: \<^verbatim>\<open>close_position\<close> is called; the entry is removed from the
  registry if and only if the close result is truthy, every other entry is kept, and after
  a failed close the registry is unchanged, so that the next pass, under the same
  conditions, calls \<^verbatim>\<open>close_position\<close> again.
\<close>

lemma close_removes_iff_truthy:
  assumes "map_of reg signal_id = Some td"
    and "obs_price ob = Some p" and "p \<noteq> 0" and "truthy (obs_position ob)"
    and "exit_checks (obs_now ob) td p = Inr (True, reason)"
    and "obs_price ob' = Some p'" and "p' \<noteq> 0" and "truthy (obs_position ob')"
    and "exit_checks (obs_now ob') td p' = Inr (True, reason')"
  shows "\<exists>reg'. monitor_entry ob reg signal_id td = Inr (reg', True)
           \<and> (map_of reg' signal_id = None \<longleftrightarrow> truthy (obs_close ob))
           \<and> (\<forall>k. k \<noteq> signal_id \<longrightarrow> map_of reg' k = map_of reg k)
           \<and> (\<not> truthy (obs_close ob) \<longrightarrow>
                reg' = reg \<and> (\<exists>reg''. monitor_entry ob' reg' signal_id td = Inr (reg'', True)))"
proof (cases "truthy (obs_close ob)")
  case True
  with assms(1-5) have "monitor_entry ob reg signal_id td = Inr (AList.delete signal_id reg, True)"
    by (simp add: monitor_entry_examined del_position_present)
  with True show ?thesis
    by (simp add: map_of_delete_self map_of_delete_other)
next
  case False
  with assms(1-5) have first: "monitor_entry ob reg signal_id td = Inr (reg, True)"
    by (simp add: monitor_entry_examined)
  from assms(1,6-9) have "\<exists>reg''. monitor_entry ob' reg signal_id td = Inr (reg'', True)"
    by (simp add: monitor_entry_examined del_position_present)
  with first False assms(1) show ?thesis by simp
qed

lemma close_removes_iff_truthy_example:
  "monitor_entry (example_obs 111 0 JNull) [(''BTC_1'', example_buy)] ''BTC_1'' example_buy
     = Inr ([(''BTC_1'', example_buy)], True)
   \<and> monitor_entry (example_obs 112 5 (JObj [(''status'', JStr ''ok'')]))
       [(''BTC_1'', example_buy)] ''BTC_1'' example_buy = Inr ([], True)"
proof -
  let ?reg = "[(''BTC_1'', example_buy)]"
  let ?ok = "JObj [(''status'', JStr ''ok'')]"
  have h1: "map_of ?reg ''BTC_1'' = Some example_buy" by simp
  have h2: "obs_price (example_obs 111 0 JNull) = Some 111" by (simp add: example_obs_def)
  have h3: "(111::real) \<noteq> 0" by simp
  have h4: "truthy (obs_position (example_obs 111 0 JNull))" by (simp add: example_obs_def)
  have h5: "exit_checks (obs_now (example_obs 111 0 JNull)) example_buy 111
              = Inr (True, Hit TP1 111 GE 110)"
    by (simp add: example_obs_def example_buy_def exit_checks_def now_ge_def price_checks_def)
  have h6: "obs_price (example_obs 112 5 ?ok) = Some 112" by (simp add: example_obs_def)
  have h7: "(112::real) \<noteq> 0" by simp
  have h8: "truthy (obs_position (example_obs 112 5 ?ok))" by (simp add: example_obs_def)
  have h9: "exit_checks (obs_now (example_obs 112 5 ?ok)) example_buy 112
              = Inr (True, Hit TP1 112 GE 110)"
    by (simp add: example_obs_def example_buy_def exit_checks_def now_ge_def price_checks_def)
  have a: "\<not> truthy (obs_close (example_obs 111 0 JNull))" by (simp add: example_obs_def)
  have b: "truthy (obs_close (example_obs 112 5 ?ok))" by (simp add: example_obs_def)
  from close_removes_iff_truthy [OF h1 h2 h3 h4 h5 h6 h7 h8 h9] a
  have first: "monitor_entry (example_obs 111 0 JNull) ?reg ''BTC_1'' example_buy = Inr (?reg, True)"
    by auto
  from close_removes_iff_truthy [OF h1 h6 h7 h8 h9 h6 h7 h8 h9] b
  obtain reg' where r: "monitor_entry (example_obs 112 5 ?ok) ?reg ''BTC_1'' example_buy = Inr (reg', True)"
    and gone: "map_of reg' ''BTC_1'' = None"
    and keep: "\<forall>k. k \<noteq> ''BTC_1'' \<longrightarrow> map_of reg' k = map_of ?reg k"
    by auto
  have "map_of reg' k = None" for k
    using gone keep by (cases "k = ''BTC_1''") auto
  then have none: "map_of reg' k = None" for k .
  have "reg' = []"
  proof (cases reg')
    case Nil
    then show ?thesis .
  next
    case (Cons a rest)
    then have "map_of reg' (fst a) = Some (snd a)" by (cases a) simp
    with none [of "fst a"] show ?thesis by simp
  qed
  with first r show ?thesis by simp
qed

text \<open>
  C5 (close and removal). The claim holds for a position whose exit evaluation completes
  (\<open>close_removes_iff_truthy\<close>), but not for every position whose exit condition
  holds. The evaluation of a position with a naive max exit time raises TypeError, and the
  exception leaves the \<^verbatim>\<open>for\<close> loop: \<^verbatim>\<open>close_position\<close> is called neither for
  that position nor for the positions behind it in the registry. In the pass below BTC has
  reached its TP1 (111 against 110) and ETH has reached its TP1 (2100 against 2000), every
  close order would succeed, and yet nothing is closed and nothing is removed; with the
  two entries in the other order ETH is closed and removed before the exception.
\<close>

theorem exit_not_closed_behind_naive_entry:
  "price_checks example_naive 111 = (True, Hit TP1 111 GE 110)
   \<and> exit_checks 500 example_eth 2100 = Inr (True, Hit TP1 2100 GE 2000)
   \<and> truthy (obs_close (example_answers ''BTC_1''))
   \<and> truthy (obs_close (example_answers ''ETH_2''))
   \<and> monitor_pass example_answers [(''BTC_1'', example_naive), (''ETH_2'', example_eth)]
       = ([(''BTC_1'', example_naive), (''ETH_2'', example_eth)], [])
   \<and> monitor_pass example_answers [(''ETH_2'', example_eth), (''BTC_1'', example_naive)]
       = ([(''BTC_1'', example_naive)], [''ETH_2''])"
  by (simp add: monitor_pass_def monitor_entry_def exit_checks_def now_ge_def price_checks_def
      del_position_def example_naive_def example_buy_def example_eth_def example_obs_def
      example_answers_def)

text \<open>
  C9 (TP2 is unreachable when the targets are ordered). For a buy position with
  \<open>tp1 \<le> tp2\<close>, and for a sell position with \<open>tp1 \<ge> tp2\<close>, the exit evaluation never
  yields a TP2 reason, whatever the price and the time.
\<close>

theorem tp2_never_recorded:
  assumes "(is_buy td \<and> tp1 td \<le> tp2 td) \<or> (\<not> is_buy td \<and> tp1 td \<ge> tp2 td)"
  shows "exit_checks now td current_price \<noteq> Inr (should_close, Hit TP2 p c t)"
proof
  assume "exit_checks now td current_price = Inr (should_close, Hit TP2 p c t)"
  then have "(should_close, Hit TP2 p c t) = price_checks td current_price"
    using exit_checks_reason by fastforce
  with assms show False
    using price_checks_TP2_buy [of td current_price should_close p c t]
      price_checks_TP2_sell [of td current_price should_close p c t]
    by auto
qed

theorem tp2_never_recorded_witness:
  "is_buy example_buy \<and> tp1 example_buy \<le> tp2 example_buy
   \<and> tp2 example_buy \<le> 125
   \<and> exit_checks 0 example_buy 125 \<noteq> Inr (True, Hit TP2 125 GE 120)"
proof -
  have h: "(is_buy example_buy \<and> tp1 example_buy \<le> tp2 example_buy)
           \<or> (\<not> is_buy example_buy \<and> tp1 example_buy \<ge> tp2 example_buy)"
    by (simp add: example_buy_def)
  from tp2_never_recorded [OF h, of 0 125 True 125 GE 120] show ?thesis
    by (simp add: example_buy_def)
qed
section \<open>Signal intake: properties\<close>

lemma then_do_Inr [simp]: "then_do (Inr x) f = f x"
  by (simp add: then_do_def)

lemma then_do_Inl [simp]: "then_do (Inl e) f = Inl e"
  by (simp add: then_do_def)

lemma subscript_Some: "map_of d k = Some v \<Longrightarrow> subscript d k = Inr v"
  by (simp add: subscript_def)

lemma map_of_in_keys: "map_of d k = Some v \<Longrightarrow> k \<in> fst ` set d"
  by (auto dest: map_of_SomeD intro: rev_image_eqI)

lemma parse_max_exit_time_key:
  "parse_max_exit_time env d = Inr t \<Longrightarrow> ''Max Exit Time'' \<in> fst ` set d"
  by (auto simp: parse_max_exit_time_def subscript_def then_do_def map_of_in_keys
      split: option.splits)

lemma find_required_None:
  assumes "''Signal Message'' \<in> fst ` set d" and "''Token Mentioned'' \<in> fst ` set d"
    and "''TP1'' \<in> fst ` set d" and "''TP2'' \<in> fst ` set d" and "''SL'' \<in> fst ` set d"
    and "''Max Exit Time'' \<in> fst ` set d"
  shows "find (\<lambda>field. field \<notin> fst ` set d) required_fields = None"
  using assms by (simp add: required_fields_def)

text \<open>
  The outcome of validation for a request whose fields other than the direction are
  well-formed.
\<close>

lemma validate_signal_well_formed:
  assumes "map_of d ''Signal Message'' = Some (JStr s)"
    and "map_of d ''Token Mentioned'' = Some (JStr t)"
    and "map_of d ''TP1'' = Some v1" and "py_float (env_float env) v1 = Inr x1"
    and "map_of d ''TP2'' = Some v2" and "py_float (env_float env) v2 = Inr x2"
    and "map_of d ''SL'' = Some v3" and "py_float (env_float env) v3 = Inr x3"
    and "py_float (env_float env)
           (case map_of d ''Current Price'' of Some v \<Rightarrow> v | None \<Rightarrow> JNum 0) = Inr p"
    and "parse_max_exit_time env d = Inr mt"
  shows "validate_signal env (JObj d) =
     (if str_lower s \<noteq> ''buy'' \<and> str_lower s \<noteq> ''sell'' then
        Inl (Failure 400 (Invalid_signal_message (str_lower s)))
      else
        Inr \<lparr>signal_message = str_lower s, sig_symbol = str_upper t, sig_tp1 = x1,
             sig_tp2 = x2, sig_sl = x3, sig_current_price = p, sig_max_exit_time = mt\<rparr>)"
proof -
  have nonempty: "d \<noteq> []" using assms(1) by auto
  have keys: "find (\<lambda>field. field \<notin> fst ` set d) required_fields = None"
    using assms(1,2,3,5,7) parse_max_exit_time_key [OF assms(10)]
    by (intro find_required_None) (auto intro: map_of_in_keys)
  have basic: "extract_basic env d = Inr (str_lower s, str_upper t, x1, x2, x3, p)"
    using assms(1-9) by (simp add: extract_basic_def subscript_Some as_str_def)
  show ?thesis
    using nonempty keys basic assms(10) by (simp add: validate_signal_def)
qed

lemma execute_signal_calls:
  "c \<in> set (snd (snd (execute_signal env st sg))) \<Longrightarrow> call_is_buy c = (signal_message sg = ''buy'')"
  by (auto simp: execute_signal_def call_is_buy_def Let_def
      split: sum.splits option.splits if_splits json.splits prod.splits)

lemma execute_signal_success:
  assumes "execute_signal env st sg = (Success b, st', calls)"
  shows "body_signal_id b = make_signal_id (sig_symbol sg) (env_time env)
       \<and> st' = register_position st (body_signal_id b)
                 (make_trade_data sg (body_entry_price b) (body_order_result b))"
  using assms
  by (auto simp: execute_signal_def Let_def
      split: sum.splits option.splits if_splits json.splits prod.splits)

lemma receive_signal_success:
  assumes "receive_signal env st signal_data = (Success b, st', calls)"
  shows "\<exists>sg. validate_signal env signal_data = Inr sg
            \<and> execute_signal env st sg = (Success b, st', calls)"
proof (cases "validate_signal env signal_data")
  case (Inl r)
  with assms have "r = Success b" by (simp add: receive_signal_def)
  with Inl show ?thesis
    by (auto simp: validate_signal_def Let_def
        split: if_splits json.splits option.splits sum.splits prod.splits)
next
  case (Inr sg)
  with assms show ?thesis by (simp add: receive_signal_def)
qed

lemma length_update_present:
  "k \<in> fst ` set al \<Longrightarrow> length (AList.update k v al) = length al"
proof -
  assume "k \<in> fst ` set al"
  then have "map fst (AList.update k v al) = map fst al"
    by (simp add: update_keys)
  then have "length (map fst (AList.update k v al)) = length (map fst al)"
    by simp
  then show ?thesis by simp
qed

text \<open>
  The direction check on a request whose other fields are well-formed (the token is a
  string, the three levels and the optional current price convert to floats, the max exit
  time parses): if the Signal Message lowercases to \<open>buy\<close> or \<open>sell\<close>, validation accepts
  it, the registered direction and every order placed for it are buy exactly when the
  lowercased message is \<open>buy\<close>; otherwise the handler answers with status 400, places no
  order and leaves the state unchanged.
\<close>

lemma direction_validation:
  assumes "map_of d ''Signal Message'' = Some (JStr s)"
    and "map_of d ''Token Mentioned'' = Some (JStr t)"
    and "map_of d ''TP1'' = Some v1" and "py_float (env_float env) v1 = Inr x1"
    and "map_of d ''TP2'' = Some v2" and "py_float (env_float env) v2 = Inr x2"
    and "map_of d ''SL'' = Some v3" and "py_float (env_float env) v3 = Inr x3"
    and "py_float (env_float env)
           (case map_of d ''Current Price'' of Some v \<Rightarrow> v | None \<Rightarrow> JNum 0) = Inr p"
    and "parse_max_exit_time env d = Inr mt"
  shows "(str_lower s = ''buy'' \<or> str_lower s = ''sell'' \<longrightarrow>
            (\<exists>sg. validate_signal env (JObj d) = Inr sg
                \<and> signal_message sg = str_lower s
                \<and> (\<forall>price res. is_buy (make_trade_data sg price res) = (str_lower s = ''buy''))
                \<and> (\<forall>c \<in> set (snd (snd (receive_signal env st (JObj d)))).
                      call_is_buy c = (str_lower s = ''buy''))))
       \<and> (str_lower s \<noteq> ''buy'' \<and> str_lower s \<noteq> ''sell'' \<longrightarrow>
            receive_signal env st (JObj d)
              = (Failure 400 (Invalid_signal_message (str_lower s)), st, []))"
proof (cases "str_lower s = ''buy'' \<or> str_lower s = ''sell''")
  case True
  let ?sg = "\<lparr>signal_message = str_lower s, sig_symbol = str_upper t, sig_tp1 = x1,
              sig_tp2 = x2, sig_sl = x3, sig_current_price = p, sig_max_exit_time = mt\<rparr>"
  from True have v: "validate_signal env (JObj d) = Inr ?sg"
    using validate_signal_well_formed [OF assms] by auto
  then have r: "receive_signal env st (JObj d) = execute_signal env st ?sg"
    by (simp add: receive_signal_def)
  have "\<forall>c \<in> set (snd (snd (receive_signal env st (JObj d)))).
          call_is_buy c = (str_lower s = ''buy'')"
    unfolding r using execute_signal_calls [of _ env st ?sg] by simp
  with v True show ?thesis
    by (auto simp: make_trade_data_def)
next
  case False
  then have "validate_signal env (JObj d)
               = Inl (Failure 400 (Invalid_signal_message (str_lower s)))"
    using validate_signal_well_formed [OF assms] by auto
  with False show ?thesis
    by (auto simp: receive_signal_def)
qed

lemma example_fields_hyps:
  "map_of (example_fields (JStr s) (JStr ''btc'') 110) ''Signal Message'' = Some (JStr s)"
  "map_of (example_fields (JStr s) (JStr ''btc'') 110) ''Token Mentioned'' = Some (JStr ''btc'')"
  "map_of (example_fields (JStr s) (JStr ''btc'') 110) ''TP1'' = Some (JNum 110)"
  "py_float (env_float (example_env 5)) (JNum 110) = Inr 110"
  "map_of (example_fields (JStr s) (JStr ''btc'') 110) ''TP2'' = Some (JNum 120)"
  "py_float (env_float (example_env 5)) (JNum 120) = Inr 120"
  "map_of (example_fields (JStr s) (JStr ''btc'') 110) ''SL'' = Some (JNum 90)"
  "py_float (env_float (example_env 5)) (JNum 90) = Inr 90"
  "py_float (env_float (example_env 5))
     (case map_of (example_fields (JStr s) (JStr ''btc'') 110) ''Current Price'' of
        Some v \<Rightarrow> v | None \<Rightarrow> JNum 0) = Inr 100"
  "parse_max_exit_time (example_env 5) (example_fields (JStr s) (JStr ''btc'') 110)
     = Inr (Aware 1735689600)"
  by (simp_all add: example_fields_def example_env_def py_float_def parse_max_exit_time_def
      subscript_def parse_iso_def replace_Z_def as_str_def)

lemma direction_validation_example:
  "(\<exists>sg. validate_signal (example_env 5)
            (JObj (example_fields (JStr ''Buy'') (JStr ''btc'') 110)) = Inr sg
        \<and> signal_message sg = ''buy''
        \<and> is_buy (make_trade_data sg 100 JNull))
   \<and> receive_signal (example_env 5) empty_state
        (JObj (example_fields (JStr ''hold'') (JStr ''btc'') 110))
       = (Failure 400 (Invalid_signal_message ''hold''), empty_state, [])"
proof -
  have buy: "str_lower ''Buy'' = ''buy''" by (simp add: str_lower_def lower_char_def)
  have hold: "str_lower ''hold'' = ''hold''" by (simp add: str_lower_def lower_char_def)
  note a = direction_validation
    [of "example_fields (JStr ''Buy'') (JStr ''btc'') 110" "''Buy''", OF example_fields_hyps,
     of empty_state]
  note b = direction_validation
    [of "example_fields (JStr ''hold'') (JStr ''btc'') 110" "''hold''", OF example_fields_hyps,
     of empty_state]
  from a have "\<exists>sg. validate_signal (example_env 5)
            (JObj (example_fields (JStr ''Buy'') (JStr ''btc'') 110)) = Inr sg
        \<and> signal_message sg = ''buy''
        \<and> is_buy (make_trade_data sg 100 JNull)"
    unfolding buy by auto
  moreover from b have "receive_signal (example_env 5) empty_state
        (JObj (example_fields (JStr ''hold'') (JStr ''btc'') 110))
       = (Failure 400 (Invalid_signal_message ''hold''), empty_state, [])"
    unfolding hold by simp
  ultimately show ?thesis by simp
qed

text \<open>
  An accepted request whose execution succeeds: one order with the direction of the
  signal is placed and the position is registered under the signal id.
\<close>

lemma execute_signal_ok:
  assumes "env_load_config env = Inr u" and "env_trader env = Inr v"
    and "sig_current_price sg \<noteq> 0"
    and "env_risk_percentage env = Inr r"
    and "env_position_size env (sig_symbol sg) (sig_current_price sg) r = Inr (usd, sz)"
    and "env_place_order env (sig_symbol sg) (signal_message sg = ''buy'') sz
           (sig_current_price sg) = JObj kvs"
    and "map_of kvs ''status'' = Some (JStr ''ok'')"
  shows "execute_signal env st sg =
     (Success \<lparr>body_message = capitalize (signal_message sg) @ '' order placed for ''
                  @ sig_symbol sg,
                body_signal_id = make_signal_id (sig_symbol sg) (env_time env),
                body_order_result = JObj kvs, body_position_size = sz,
                body_entry_price = sig_current_price sg, body_tp1 = sig_tp1 sg,
                body_tp2 = sig_tp2 sg, body_sl = sig_sl sg\<rparr>,
      register_position st (make_signal_id (sig_symbol sg) (env_time env))
        (make_trade_data sg (sig_current_price sg) (JObj kvs)),
      [Place_order (sig_symbol sg) (signal_message sg = ''buy'') sz (sig_current_price sg)])"
proof -
  from assms(7) have "kvs \<noteq> []" by auto
  with assms show ?thesis
    by (simp add: execute_signal_def Let_def)
qed

lemmas intake_eval =
  receive_signal_def execute_signal_def validate_signal_def example_env_def example_fields_def
  required_fields_def extract_basic_def subscript_def as_str_def caught_inside_def py_float_def
  parse_max_exit_time_def parse_iso_def replace_Z_def str_lower_def lower_char_def
  str_upper_def upper_char_def make_signal_id_def py_int_def str_of_int_def digit_char_def
  capitalize_def

text \<open>
  C8 (direction check). A well-formed request with Signal Message \<open>Buy\<close> is accepted and
  executed as a buy (one buy order, a buy position registered), and a well-formed request
  with \<open>hold\<close> is answered with status 400 without an order
  (\<open>direction_validation\<close> for the general statement). But not every request with
  \<open>hold\<close> gets status 400: if the token is a number, \<^verbatim>\<open>.upper()\<close> raises
  AttributeError, and if TP1 is an integer too large for a float, \<^verbatim>\<open>float()\<close> raises
  OverflowError; the handler of line 494 catches only KeyError, TypeError and ValueError,
  so both reach the handler of line 612 and are answered with status 500.
\<close>

theorem hold_rejected_with_500:
  "receive_signal (example_env 5) empty_state
     (JObj (example_fields (JStr ''hold'') (JInt 5) 110))
     = (Failure 500 (Unhandled AttributeError), empty_state, [])
   \<and> receive_signal (example_env 5) empty_state (JObj example_overflow_fields)
     = (Failure 500 (Unhandled OverflowError), empty_state, [])
   \<and> receive_signal (example_env 5) empty_state
       (JObj (example_fields (JStr ''hold'') (JStr ''btc'') 110))
     = (Failure 400 (Invalid_signal_message ''hold''), empty_state, [])
   \<and> receive_signal (example_env 5) empty_state
       (JObj (example_fields (JStr ''Buy'') (JStr ''btc'') 110))
     = (Success \<lparr>body_message = ''Buy order placed for BTC'', body_signal_id = ''BTC_5'',
                  body_order_result = JObj [(''status'', JStr ''ok'')],
                  body_position_size = 1, body_entry_price = 100, body_tp1 = 110,
                  body_tp2 = 120, body_sl = 90\<rparr>,
        \<lparr>active_positions =
           [(''BTC_5'', \<lparr>symbol = ''BTC'', is_buy = True, tp1 = 110, tp2 = 120, sl = 90,
                          max_exit_time = Aware 1735689600, entry_price = 100,
                          order_result = JObj [(''status'', JStr ''ok'')]\<rparr>)],
         monitoring_active = True\<rparr>,
        [Place_order ''BTC'' True 1 100])"
  by (simp add: intake_eval example_overflow_fields_def register_position_def
      make_trade_data_def empty_state_def Let_def upper_char_def)

text \<open>
  C10 (signal ids collide within a second). If two signals for the same symbol are both
  processed successfully, the second right after the first, and the integer parts of the
  two placement times are equal, then both responses carry the same signal id, the
  registry entry under that id holds the second signal's data, and the registry has
  exactly the keys and the length it had after the first signal: the first trade is no
  longer monitored.
\<close>

theorem same_second_overwrites:
  assumes "receive_signal env1 st0 d1 = (Success b1, st1, calls1)"
    and "receive_signal env2 st1 d2 = (Success b2, st2, calls2)"
    and "validate_signal env1 d1 = Inr sg1" and "validate_signal env2 d2 = Inr sg2"
    and "sig_symbol sg1 = sig_symbol sg2"
    and "py_int (env_time env1) = py_int (env_time env2)"
  shows "body_signal_id b1 = body_signal_id b2
       \<and> map_of (active_positions st1) (body_signal_id b1)
           = Some (make_trade_data sg1 (body_entry_price b1) (body_order_result b1))
       \<and> map_of (active_positions st2) (body_signal_id b1)
           = Some (make_trade_data sg2 (body_entry_price b2) (body_order_result b2))
       \<and> fst ` set (active_positions st2) = fst ` set (active_positions st1)
       \<and> length (active_positions st2) = length (active_positions st1)"
proof -
  from receive_signal_success [OF assms(1)] assms(3)
  have e1: "execute_signal env1 st0 sg1 = (Success b1, st1, calls1)" by simp
  from receive_signal_success [OF assms(2)] assms(4)
  have e2: "execute_signal env2 st1 sg2 = (Success b2, st2, calls2)" by simp
  note s1 = execute_signal_success [OF e1]
  note s2 = execute_signal_success [OF e2]
  have ids: "body_signal_id b1 = body_signal_id b2"
    using s1 s2 assms(5,6) by (simp add: make_signal_id_def)
  let ?td1 = "make_trade_data sg1 (body_entry_price b1) (body_order_result b1)"
  let ?td2 = "make_trade_data sg2 (body_entry_price b2) (body_order_result b2)"
  have r1: "active_positions st1 = AList.update (body_signal_id b1) ?td1 (active_positions st0)"
    using s1 by (simp add: register_position_def)
  have r2: "active_positions st2 = AList.update (body_signal_id b1) ?td2 (active_positions st1)"
    using s2 ids by (simp add: register_position_def)
  have m1: "map_of (active_positions st1) (body_signal_id b1) = Some ?td1"
    unfolding r1 by (simp add: update_conv')
  have m2: "map_of (active_positions st2) (body_signal_id b1) = Some ?td2"
    unfolding r2 by (simp add: update_conv')
  have present: "body_signal_id b1 \<in> fst ` set (active_positions st1)"
    using m1 by (rule map_of_in_keys)
  have k: "fst ` set (active_positions st2) = fst ` set (active_positions st1)"
    unfolding r2 using present by (auto simp: dom_update)
  have l: "length (active_positions st2) = length (active_positions st1)"
    unfolding r2 using present by (simp add: length_update_present)
  from ids m1 m2 k l show ?thesis by simp
qed

theorem same_second_overwrites_witness:
  "\<exists>b1 st1 calls1 b2 st2 calls2.
     receive_signal (example_env (17000000002 / 10)) empty_state
       (JObj (example_fields (JStr ''Buy'') (JStr ''btc'') 110)) = (Success b1, st1, calls1)
   \<and> receive_signal (example_env (17000000009 / 10)) st1
       (JObj (example_fields (JStr ''buy'') (JStr ''BTC'') 115)) = (Success b2, st2, calls2)
   \<and> body_signal_id b1 = ''BTC_1700000000'' \<and> body_signal_id b2 = ''BTC_1700000000''
   \<and> map (tp1 \<circ> snd) (active_positions st1) = [110]
   \<and> map (tp1 \<circ> snd) (active_positions st2) = [115]"
proof -
  let ?e1 = "example_env (17000000002 / 10)" and ?e2 = "example_env (17000000009 / 10)"
  let ?d1 = "JObj (example_fields (JStr ''Buy'') (JStr ''btc'') 110)"
  let ?d2 = "JObj (example_fields (JStr ''buy'') (JStr ''BTC'') 115)"
  obtain sg1 where v1: "validate_signal ?e1 ?d1 = Inr sg1"
    and sg1: "sig_symbol sg1 = ''BTC''" "sig_tp1 sg1 = 110" "sig_current_price sg1 = 100"
    by (simp add: intake_eval)
  obtain sg2 where v2: "validate_signal ?e2 ?d2 = Inr sg2"
    and sg2: "sig_symbol sg2 = ''BTC''" "sig_tp1 sg2 = 115" "sig_current_price sg2 = 100"
    by (simp add: intake_eval)
  obtain b1 st1 calls1 where r1: "receive_signal ?e1 empty_state ?d1 = (Success b1, st1, calls1)"
    and id1: "body_signal_id b1 = ''BTC_1700000000''"
    and st1: "active_positions st1 = [(''BTC_1700000000'',
                 make_trade_data sg1 (body_entry_price b1) (body_order_result b1))]"
    using v1 by (simp add: receive_signal_def execute_signal_def example_env_def sg1
        make_signal_id_def py_int_def str_of_int_def digit_char_def register_position_def
        empty_state_def Let_def)
  obtain b2 st2 calls2 where r2: "receive_signal ?e2 st1 ?d2 = (Success b2, st2, calls2)"
    using v2 by (simp add: receive_signal_def execute_signal_def example_env_def sg2 Let_def)
  have same_symbol: "sig_symbol sg1 = sig_symbol sg2" by (simp add: sg1 sg2)
  have same_second: "py_int (env_time ?e1) = py_int (env_time ?e2)"
    by (simp add: example_env_def py_int_def)
  note c = same_second_overwrites [OF r1 r2 v1 v2 same_symbol same_second]
  from c have id12: "body_signal_id b1 = body_signal_id b2"
    and m0: "map_of (active_positions st2) (body_signal_id b1)
      = Some (make_trade_data sg2 (body_entry_price b2) (body_order_result b2))"
    and len0: "length (active_positions st2) = length (active_positions st1)"
    by blast+
  from id12 id1 have id2: "body_signal_id b2 = ''BTC_1700000000''" by simp
  from len0 have len: "length (active_positions st2) = 1" by (simp add: st1)
  from m0 have m: "map_of (active_positions st2) ''BTC_1700000000''
      = Some (make_trade_data sg2 (body_entry_price b2) (body_order_result b2))"
    unfolding id1 .
  from len obtain k td where one: "active_positions st2 = [(k, td)]"
    by (cases "active_positions st2") (auto split: if_splits)
  with m have "td = make_trade_data sg2 (body_entry_price b2) (body_order_result b2)"
    by (auto split: if_splits)
  with one have t2: "map (tp1 \<circ> snd) (active_positions st2) = [115]"
    by (simp add: make_trade_data_def sg2)
  have t1: "map (tp1 \<circ> snd) (active_positions st1) = [110]"
    by (simp add: st1 make_trade_data_def sg1)
  show ?thesis
    by (intro exI conjI) (rule r1 r2 id1 id2 t1 t2)+
qed

section \<open>Order sizing: properties\<close>

lemma try_except_Inr [simp]: "try_except (Inr x) h = Inr x"
  by (simp add: try_except_def)

lemma try_except_Inl [simp]: "try_except (Inl e) h = h e"
  by (simp add: try_except_def)

lemma py_div_nonzero [simp]: "b \<noteq> 0 \<Longrightarrow> py_div a b = Inr (a / b)"
  by (simp add: py_div_def)

lemma py_div_zero [simp]: "py_div a 0 = Inl ZeroDivisionError"
  by (simp add: py_div_def)

text \<open>The cache: a second call returns the mapping of the first and fetches nothing.\<close>

lemma get_asset_specs_cached:
  "get_asset_specs meta cache = (specs, cache') \<Longrightarrow>
   get_asset_specs meta' cache' = (specs, cache')"
  by (auto simp: get_asset_specs_def Let_def split: option.splits)

lemma example_specs_BTC:
  "example_specs ''BTC'' =
     Some \<lparr>asset_id = 0, sz_decimals = 5, max_leverage = 40, only_isolated = False\<rparr>"
  by (simp add: example_specs_def get_asset_specs_def example_universe_def Let_def)

lemma example_specs_unknown: "example_specs ''XYZ'' = None"
  by (simp add: example_specs_def get_asset_specs_def example_universe_def Let_def)

lemma get_min_order_size_nonzero:
  "price \<noteq> 0 \<Longrightarrow>
   get_min_order_size specs coin price =
     Inr (case specs coin of
            Some spec \<Rightarrow> max (10 powi (- sz_decimals spec)) (10 / price)
          | None \<Rightarrow> max (10 / price) (1 / 10000))"
  by (simp add: get_min_order_size_def Let_def split: option.splits)

lemma get_min_order_size_zero: "get_min_order_size specs coin 0 = Inl ZeroDivisionError"
  by (simp add: get_min_order_size_def Let_def split: option.splits)

text \<open>
  C2 (minimum order size). For a positive price, a symbol of the metadata cache with size
  precision \<open>d\<close> has minimum size \<open>max (10^-d) (10 / price)\<close>, and a symbol absent from
  the cache has minimum size \<open>max (10 / price) 0.0001\<close>.
\<close>

theorem min_order_size_formula:
  assumes "0 < price"
  shows "(specs coin = Some spec \<longrightarrow>
            get_min_order_size specs coin price
              = Inr (max (10 powi (- sz_decimals spec)) (10 / price)))
       \<and> (specs coin = None \<longrightarrow>
            get_min_order_size specs coin price = Inr (max (10 / price) (1 / 10000)))"
  using assms by (simp add: get_min_order_size_nonzero)

theorem min_order_size_formula_witness:
  "get_min_order_size example_specs ''BTC'' 50000 = Inr (1 / 5000)
   \<and> get_min_order_size example_specs ''BTC'' 2000000 = Inr (1 / 100000)
   \<and> get_min_order_size example_specs ''XYZ'' 50000 = Inr (1 / 5000)
   \<and> get_min_order_size example_specs ''XYZ'' 200000 = Inr (1 / 10000)"
proof -
  have p1: "(0::real) < 50000" and p2: "(0::real) < 2000000" and p3: "(0::real) < 200000"
    by simp_all
  from min_order_size_formula [OF p1, of example_specs "''BTC''"]
    min_order_size_formula [OF p2, of example_specs "''BTC''"]
    min_order_size_formula [OF p1, of example_specs "''XYZ''"]
    min_order_size_formula [OF p3, of example_specs "''XYZ''"]
  show ?thesis
    by (simp add: example_specs_BTC example_specs_unknown power_int_minus)
qed

lemma validate_and_adjust_size_nonzero:
  assumes "price \<noteq> 0" and "get_min_order_size specs coin price = Inr m"
  shows "validate_and_adjust_size specs coin sz price =
     Inr (if sz < m then m * (101 / 100)
          else (case specs coin of Some spec \<Rightarrow> py_round sz (sz_decimals spec) | None \<Rightarrow> sz))"
  using assms by (simp add: validate_and_adjust_size_def split: option.splits)

lemma validate_and_adjust_size_zero: "validate_and_adjust_size specs coin sz 0 = Inr sz"
  by (simp add: validate_and_adjust_size_def get_min_order_size_zero)

text \<open>
  C3 (size adjustment). For every price other than 0 the function does what the claim
  says (\<open>validate_and_adjust_size_cases\<close> below). At price 0 it does not: the minimum
  order size cannot be obtained, because \<^verbatim>\<open>get_min_order_size\<close> raises from its own
  fallback (the defect of C4), the handler of line 126 returns the size as it came, and
  for a symbol of the cache this is not the size rounded to its precision. Here BTC has
  five size decimals and the size 0.1234567 comes back unrounded.
\<close>

theorem validate_size_unrounded_at_zero_price:
  "get_min_order_size example_specs ''BTC'' 0 = Inl ZeroDivisionError
   \<and> validate_and_adjust_size example_specs ''BTC'' (1234567 / 10000000) 0
       = Inr (1234567 / 10000000)
   \<and> map_option sz_decimals (example_specs ''BTC'') = Some 5
   \<and> py_round (1234567 / 10000000) 5 = 12346 / 100000
   \<and> validate_and_adjust_size example_specs ''BTC'' (1234567 / 10000000) 0
       \<noteq> Inr (py_round (1234567 / 10000000) 5)"
  by (simp add: get_min_order_size_zero validate_and_adjust_size_zero example_specs_BTC
      py_round_def round_half_even_def)

text \<open>
  The behaviour of \<^verbatim>\<open>validate_and_adjust_size\<close> in full. For every symbol and size
  and every price other than 0, with \<open>m\<close> the minimum order size: a size below \<open>m\<close> is
  replaced by \<open>1.01 * m\<close>; otherwise the size is rounded to the symbol's size precision
  if the symbol is in the cache and returned unchanged if it is not. At price 0 the size
  is returned unchanged.
\<close>

lemma validate_and_adjust_size_cases:
  "(price \<noteq> 0 \<longrightarrow>
      (\<exists>m. get_min_order_size specs coin price = Inr m
         \<and> (sz < m \<longrightarrow> validate_and_adjust_size specs coin sz price = Inr (101 / 100 * m))
         \<and> (\<not> sz < m \<longrightarrow>
               (\<forall>spec. specs coin = Some spec \<longrightarrow>
                  validate_and_adjust_size specs coin sz price
                    = Inr (py_round sz (sz_decimals spec)))
             \<and> (specs coin = None \<longrightarrow>
                  validate_and_adjust_size specs coin sz price = Inr sz))))
   \<and> (price = 0 \<longrightarrow> validate_and_adjust_size specs coin sz price = Inr sz)"
proof (cases "price = 0")
  case True
  then show ?thesis by (simp add: validate_and_adjust_size_zero)
next
  case False
  then obtain m where m: "get_min_order_size specs coin price = Inr m"
    by (simp add: get_min_order_size_nonzero)
  from validate_and_adjust_size_nonzero [OF False m, of sz] m False
  show ?thesis by auto
qed

lemma validate_and_adjust_size_cases_example:
  "validate_and_adjust_size example_specs ''BTC'' (1 / 100000) 50000 = Inr (101 / 500000)
   \<and> validate_and_adjust_size example_specs ''BTC'' (1234567 / 10000000) 50000
       = Inr (12346 / 100000)
   \<and> validate_and_adjust_size example_specs ''XYZ'' (1234567 / 10000000) 50000
       = Inr (1234567 / 10000000)
   \<and> validate_and_adjust_size example_specs ''BTC'' (1234567 / 10000000) 0
       = Inr (1234567 / 10000000)"
proof -
  have m: "get_min_order_size example_specs coin 50000 = Inr (1 / 5000)"
    if "coin = ''BTC'' \<or> coin = ''XYZ''" for coin
    using that
    by (auto simp: get_min_order_size_nonzero example_specs_BTC example_specs_unknown
        power_int_minus)
  have r: "py_round (1234567 / 10000000) 5 = 12346 / 100000"
    by (simp add: py_round_def round_half_even_def)
  have nz: "(50000::real) \<noteq> 0" by simp
  from validate_and_adjust_size_cases [of 50000 example_specs "''BTC''" "1 / 100000"] nz
  obtain m1 where "get_min_order_size example_specs ''BTC'' 50000 = Inr m1"
    and "1 / 100000 < m1 \<longrightarrow>
      validate_and_adjust_size example_specs ''BTC'' (1 / 100000) 50000 = Inr (101 / 100 * m1)"
    by meson
  then have a: "validate_and_adjust_size example_specs ''BTC'' (1 / 100000) 50000
       = Inr (101 / 500000)"
    by (simp add: m)
  from validate_and_adjust_size_cases [of 50000 example_specs "''BTC''" "1234567 / 10000000"] nz
  obtain m2 where "get_min_order_size example_specs ''BTC'' 50000 = Inr m2"
    and "\<not> 1234567 / 10000000 < m2 \<longrightarrow>
      (\<forall>spec. example_specs ''BTC'' = Some spec \<longrightarrow>
         validate_and_adjust_size example_specs ''BTC'' (1234567 / 10000000) 50000
           = Inr (py_round (1234567 / 10000000) (sz_decimals spec)))"
    by meson
  then have b: "validate_and_adjust_size example_specs ''BTC'' (1234567 / 10000000) 50000
       = Inr (12346 / 100000)"
    by (simp add: m example_specs_BTC r)
  from validate_and_adjust_size_cases [of 50000 example_specs "''XYZ''" "1234567 / 10000000"] nz
  obtain m3 where "get_min_order_size example_specs ''XYZ'' 50000 = Inr m3"
    and "\<not> 1234567 / 10000000 < m3 \<longrightarrow> (example_specs ''XYZ'' = None \<longrightarrow>
         validate_and_adjust_size example_specs ''XYZ'' (1234567 / 10000000) 50000
           = Inr (1234567 / 10000000))"
    by meson
  then have c: "validate_and_adjust_size example_specs ''XYZ'' (1234567 / 10000000) 50000
       = Inr (1234567 / 10000000)"
    by (simp add: m example_specs_unknown)
  from validate_and_adjust_size_cases [of 0 example_specs "''BTC''" "1234567 / 10000000"]
  have d: "validate_and_adjust_size example_specs ''BTC'' (1234567 / 10000000) 0
       = Inr (1234567 / 10000000)"
    by simp
  from a b c d show ?thesis by simp
qed

lemma validate_and_adjust_size_returns:
  "\<exists>v. validate_and_adjust_size specs coin sz price = Inr v"
  by (cases "price = 0")
    (simp_all add: validate_and_adjust_size_zero validate_and_adjust_size_nonzero
      get_min_order_size_nonzero)

lemma format_price_returns: "\<exists>v. format_price specs price coin = Inr v"
  by (simp add: format_price_def Let_def split: option.splits)

lemma get_market_price_returns: "\<exists>v. get_market_price specs mid coin buy = Inr v"
  by (auto simp: get_market_price_def Let_def try_except_def then_do_def
      split: option.splits sum.splits)

lemma try_except_returns:
  "(\<And>e. \<exists>v. handler e = Inr v) \<Longrightarrow> \<exists>v. try_except body handler = Inr v"
  by (cases body) simp_all

lemma calculate_position_size_nonzero:
  assumes "price \<noteq> 0"
  shows "\<exists>v. calculate_position_size specs vault coin price pct = Inr v"
proof -
  obtain m where m: "get_min_order_size specs coin price = Inr m"
    using assms by (simp add: get_min_order_size_nonzero)
  show ?thesis
    unfolding calculate_position_size_def
    by (rule try_except_returns) (simp add: m del: split_paired_Ex)
qed

text \<open>
  C4 (sizing never raises). \<^verbatim>\<open>validate_and_adjust_size\<close>, \<^verbatim>\<open>format_price\<close> and
  \<^verbatim>\<open>get_market_price\<close> always return (\<open>validate_and_adjust_size_returns\<close>,
  \<open>format_price_returns\<close>, \<open>get_market_price_returns\<close>), and the other two return for
  every price other than 0 (\<open>get_min_order_size_nonzero\<close>,
  \<open>calculate_position_size_nonzero\<close>). At price 0 the fallback of
  \<^verbatim>\<open>get_min_order_size\<close> (line 101) divides by the price again, so the
  ZeroDivisionError leaves the function; the fallback of \<^verbatim>\<open>calculate_position_size\<close>
  (line 333) calls \<^verbatim>\<open>get_min_order_size\<close> and fails in the same way.
\<close>

theorem sizing_raises_at_zero_price:
  "get_min_order_size example_specs ''BTC'' 0 = Inl ZeroDivisionError
   \<and> get_min_order_size example_specs ''XYZ'' 0 = Inl ZeroDivisionError
   \<and> calculate_position_size example_specs None ''BTC'' 0 10 = Inl ZeroDivisionError
   \<and> calculate_position_size example_specs
        (Some \<lparr>total_account_value = 1000, withdrawable = 500\<rparr>) ''BTC'' 0 10
       = Inl ZeroDivisionError"
  by (simp add: get_min_order_size_zero calculate_position_size_def Let_def)

section \<open>Rounding: properties\<close>

lemma pow10_less_cancel: "(10::real) powi a < 10 powi b \<Longrightarrow> a < b"
proof (rule ccontr)
  assume less: "(10::real) powi a < 10 powi b" and "\<not> a < b"
  then have "b \<le> a" by simp
  then have "(10::real) powi b \<le> 10 powi a" by (rule power_int_increasing) simp
  with less show False by simp
qed

lemma pow10_nonneg_exp: "0 \<le> d \<Longrightarrow> (10::real) powi d = of_int (10 ^ nat d)"
  by (simp add: power_int_nonneg_exp)

lemma pow10_split: "(10::real) powi (a + b) = 10 powi a * 10 powi b"
  by (simp add: power_int_add)

lemma pow10_diff: "(10::real) powi (a - b) = 10 powi a / 10 powi b"
  by (simp add: power_int_diff)

lemma round_half_even_of_int: "round_half_even (of_int k) = k"
  by (simp add: round_half_even_def)

lemma round_half_even_cases:
  "round_half_even x = \<lfloor>x\<rfloor> \<or> (round_half_even x = \<lfloor>x\<rfloor> + 1 \<and> 1 / 2 \<le> x - of_int \<lfloor>x\<rfloor>)"
  by (auto simp: round_half_even_def Let_def)

lemma round_half_even_close: "\<bar>of_int (round_half_even x) - x\<bar> \<le> 1 / 2"
proof -
  have f: "of_int \<lfloor>x\<rfloor> \<le> x" "x < of_int \<lfloor>x\<rfloor> + 1" by linarith+
  show ?thesis
    using f by (auto simp: round_half_even_def Let_def)
qed

lemma round_half_even_abs_le:
  assumes "\<bar>x\<bar> \<le> of_int N"
  shows "\<bar>round_half_even x\<bar> \<le> N"
proof -
  from assms have lo: "- N \<le> \<lfloor>x\<rfloor>" and hi: "\<lfloor>x\<rfloor> \<le> N"
    by (simp_all add: le_floor_iff floor_le_iff abs_le_iff)
  from round_half_even_cases [of x] show ?thesis
  proof
    assume "round_half_even x = \<lfloor>x\<rfloor>"
    with lo hi show ?thesis by simp
  next
    assume a: "round_half_even x = \<lfloor>x\<rfloor> + 1 \<and> 1 / 2 \<le> x - of_int \<lfloor>x\<rfloor>"
    then have "of_int \<lfloor>x\<rfloor> < x" by simp
    also have "x \<le> of_int N" using assms by simp
    finally have "\<lfloor>x\<rfloor> < N" by simp
    with a lo show ?thesis by simp
  qed
qed

lemma py_round_decimal_places: "decimal_places n (py_round x n)"
  unfolding decimal_places_def py_round_def by blast

lemma py_round_close: "\<bar>py_round x n - x\<bar> \<le> 10 powi (- n) / 2"
proof -
  let ?s = "(10::real) powi n"
  have s: "0 < ?s" by simp
  have "py_round x n - x = (of_int (round_half_even (x * ?s)) - x * ?s) / ?s"
    using s by (simp add: py_round_def field_simps)
  then have "\<bar>py_round x n - x\<bar> = \<bar>of_int (round_half_even (x * ?s)) - x * ?s\<bar> / ?s"
    using s by simp
  also have "\<dots> \<le> (1 / 2) / ?s"
    using s round_half_even_close [of "x * ?s"] by (intro divide_right_mono) simp_all
  also have "\<dots> = 10 powi (- n) / 2"
    by (simp add: power_int_minus field_simps)
  finally show ?thesis .
qed

lemma py_round_fixed:
  assumes "decimal_places n y"
  shows "py_round y n = y"
proof -
  from assms obtain k where y: "y = of_int k / 10 powi n"
    by (auto simp: decimal_places_def)
  have "y * 10 powi n = of_int k" by (simp add: y)
  then show ?thesis
    by (simp add: py_round_def round_half_even_of_int y)
qed

lemma exponent_up_bounds:
  "1 \<le> x \<Longrightarrow> 10 powi (exponent_up x) \<le> x \<and> x < 10 powi (exponent_up x + 1)"
proof (induction x rule: exponent_up.induct)
  case (1 x)
  show ?case
  proof (cases "x < 10")
    case True
    then have "exponent_up x = 0" by (subst exponent_up.simps) simp
    with True "1.prems" show ?thesis by simp
  next
    case False
    then have e: "exponent_up x = exponent_up (x / 10) + 1"
      by (subst exponent_up.simps) simp
    from False have "1 \<le> x / 10" by simp
    with "1.IH" False
    have ih: "10 powi (exponent_up (x / 10)) \<le> x / 10"
      "x / 10 < 10 powi (exponent_up (x / 10) + 1)" by simp_all
    have "10 powi (exponent_up x) = 10 powi (exponent_up (x / 10)) * (10::real)"
      by (simp add: e pow10_split)
    moreover have "10 powi (exponent_up x + 1) = 10 powi (exponent_up (x / 10) + 1) * (10::real)"
      by (simp add: e pow10_split)
    ultimately show ?thesis using ih by simp
  qed
qed

lemma exponent_down_bounds:
  "0 < x \<Longrightarrow> x < 1 \<Longrightarrow>
   10 powi (exponent_down x) \<le> x \<and> x < 10 powi (exponent_down x + 1)"
proof (induction x rule: exponent_down.induct)
  case (1 x)
  from "1.prems" have e: "exponent_down x = exponent_down (x * 10) - 1"
    by (subst exponent_down.simps) simp
  show ?case
  proof (cases "1 \<le> x * 10")
    case True
    then have "exponent_down (x * 10) = 0" by (subst exponent_down.simps) simp
    with e have "exponent_down x = - 1" by simp
    with True "1.prems" show ?thesis by simp
  next
    case False
    with "1.IH" "1.prems"
    have ih: "10 powi (exponent_down (x * 10)) \<le> x * 10"
      "x * 10 < 10 powi (exponent_down (x * 10) + 1)" by simp_all
    have e': "exponent_down (x * 10) = exponent_down x + 1" using e by simp
    have "10 powi (exponent_down (x * 10)) = 10 powi (exponent_down x) * (10::real)"
      unfolding e' by (simp add: pow10_split)
    moreover have "10 powi (exponent_down (x * 10) + 1) = 10 powi (exponent_down x + 1) * (10::real)"
      unfolding e' by (simp add: pow10_split)
    ultimately show ?thesis using ih by simp
  qed
qed

lemma decimal_exponent_bounds:
  assumes "x \<noteq> 0"
  shows "10 powi (decimal_exponent x) \<le> \<bar>x\<bar>" and "\<bar>x\<bar> < 10 powi (decimal_exponent x + 1)"
proof -
  have "10 powi (decimal_exponent x) \<le> \<bar>x\<bar> \<and> \<bar>x\<bar> < 10 powi (decimal_exponent x + 1)"
  proof (cases "1 \<le> \<bar>x\<bar>")
    case True
    then show ?thesis
      using exponent_up_bounds [of "\<bar>x\<bar>"] by (simp add: decimal_exponent_def)
  next
    case False
    with assms have "0 < \<bar>x\<bar>" "\<bar>x\<bar> < 1" by simp_all
    with False show ?thesis
      using exponent_down_bounds [of "\<bar>x\<bar>"] by (simp add: decimal_exponent_def)
  qed
  then show "10 powi (decimal_exponent x) \<le> \<bar>x\<bar>"
    and "\<bar>x\<bar> < 10 powi (decimal_exponent x + 1)" by simp_all
qed

lemma at_most_5_digits_zero: "at_most_5_digits 0"
  unfolding at_most_5_digits_def by (rule exI [of _ 0], rule exI [of _ 0]) simp

text \<open>A number with at most five significant digits is left alone by the format.\<close>

lemma format_5g_fixed:
  assumes "at_most_5_digits y"
  shows "format_5g y = y"
proof (cases "y = 0")
  case True
  then show ?thesis by (simp add: format_5g_def)
next
  case False
  from assms obtain K j where y: "y = of_int K * 10 powi j" and K: "\<bar>K\<bar> < 100000"
    by (auto simp: at_most_5_digits_def)
  define e where "e = decimal_exponent y"
  have "10 powi e \<le> \<bar>y\<bar>"
    unfolding e_def using False by (rule decimal_exponent_bounds)
  also have "\<bar>y\<bar> = of_int \<bar>K\<bar> * 10 powi j"
    by (simp add: y abs_mult)
  also have "\<dots> < 100000 * 10 powi j"
    using K by (intro mult_strict_right_mono) simp_all
  also have "\<dots> = 10 powi (j + 5)"
    by (simp add: pow10_split)
  finally have "e < j + 5" by (rule pow10_less_cancel)
  define d where "d = j - (e - 4)"
  have d: "0 \<le> d" using \<open>e < j + 5\<close> by (simp add: d_def)
  have j: "j = d + (e - 4)" by (simp add: d_def)
  have q: "y / 10 powi (e - 4) = of_int (K * 10 ^ nat d)"
  proof -
    have "y / 10 powi (e - 4) = of_int K * 10 powi d"
      unfolding y j by (simp add: pow10_split)
    also have "\<dots> = of_int (K * 10 ^ nat d)"
      using d by (simp add: pow10_nonneg_exp)
    finally show ?thesis .
  qed
  have "format_5g y = of_int (round_half_even (y / 10 powi (e - 4))) * 10 powi (e - 4)"
    using False by (simp add: format_5g_def e_def Let_def)
  also have "\<dots> = of_int (K * 10 ^ nat d) * 10 powi (e - 4)"
    unfolding q round_half_even_of_int ..
  also have "\<dots> = (y / 10 powi (e - 4)) * 10 powi (e - 4)"
    unfolding q ..
  also have "\<dots> = y" by simp
  finally show ?thesis .
qed

text \<open>The format produces at most five significant digits, within half a unit of the fifth.\<close>

lemma format_5g_scaled:
  assumes "x \<noteq> 0"
  shows "\<bar>x / 10 powi (decimal_exponent x - 4)\<bar> < 100000"
proof -
  let ?e = "decimal_exponent x"
  have "\<bar>x\<bar> < 10 powi (?e + 1)" using assms by (rule decimal_exponent_bounds)
  also have "\<dots> = 100000 * 10 powi (?e - 4)"
  proof -
    have "?e + 1 = 5 + (?e - 4)" by simp
    then have "(10::real) powi (?e + 1) = 10 powi 5 * 10 powi (?e - 4)"
      by (simp only: pow10_split)
    then show ?thesis by simp
  qed
  finally have "\<bar>x\<bar> / 10 powi (?e - 4) < 100000"
    by (simp add: pos_divide_less_eq)
  then show ?thesis by simp
qed

lemma format_5g_digits: "at_most_5_digits (format_5g x)"
proof (cases "x = 0")
  case True
  then show ?thesis by (simp add: format_5g_def at_most_5_digits_zero)
next
  case False
  define e where "e = decimal_exponent x"
  define K where "K = round_half_even (x / 10 powi (e - 4))"
  have f: "format_5g x = of_int K * 10 powi (e - 4)"
    using False by (simp add: format_5g_def e_def K_def Let_def)
  have "\<bar>x / 10 powi (e - 4)\<bar> \<le> of_int 100000"
    using format_5g_scaled [OF False] by (simp add: e_def)
  then have bound: "\<bar>K\<bar> \<le> 100000"
    unfolding K_def by (rule round_half_even_abs_le)
  show ?thesis
  proof (cases "\<bar>K\<bar> < 100000")
    case True
    with f show ?thesis unfolding at_most_5_digits_def by blast
  next
    case False
    with bound have "K = 100000 \<or> K = - 100000" by linarith
    then obtain K' where K': "K = 10 * K'" "\<bar>K'\<bar> < 100000"
      by (auto intro: that [of 10000] that [of "- 10000"])
    have "e - 3 = 1 + (e - 4)" by simp
    then have "(10::real) powi (e - 3) = 10 * 10 powi (e - 4)"
      by (simp only: pow10_split) simp
    then have "format_5g x = of_int K' * 10 powi (e - 3)"
      by (simp add: f K')
    with K'(2) show ?thesis unfolding at_most_5_digits_def by blast
  qed
qed

lemma format_5g_close:
  assumes "x \<noteq> 0"
  shows "\<bar>format_5g x - x\<bar> \<le> 10 powi (decimal_exponent x - 4) / 2"
proof -
  let ?s = "(10::real) powi (decimal_exponent x - 4)"
  have s: "0 < ?s" by simp
  have "format_5g x - x = (of_int (round_half_even (x / ?s)) - x / ?s) * ?s"
    using assms s by (simp add: format_5g_def Let_def field_simps)
  then have "\<bar>format_5g x - x\<bar> = \<bar>of_int (round_half_even (x / ?s)) - x / ?s\<bar> * ?s"
    using s by (simp add: abs_mult)
  also have "\<dots> \<le> (1 / 2) * ?s"
    using s round_half_even_close [of "x / ?s"] by (intro mult_right_mono) simp_all
  finally show ?thesis by simp
qed

text \<open>Rounding to decimal places does not add significant digits.\<close>

lemma py_round_digits:
  assumes "at_most_5_digits y"
  shows "at_most_5_digits (py_round y n)"
proof -
  from assms obtain K j where y: "y = of_int K * 10 powi j" and K: "\<bar>K\<bar> < 100000"
    by (auto simp: at_most_5_digits_def)
  have scaled: "y * 10 powi n = of_int K * 10 powi (j + n)"
    by (simp add: y pow10_split)
  show ?thesis
  proof (cases "0 \<le> j + n")
    case True
    then have "y * 10 powi n = of_int (K * 10 ^ nat (j + n))"
      by (simp add: scaled pow10_nonneg_exp)
    then have "y = of_int (K * 10 ^ nat (j + n)) / 10 powi n"
      by (simp add: field_simps)
    then have "decimal_places n y" unfolding decimal_places_def by blast
    then have "py_round y n = y" by (rule py_round_fixed)
    with assms show ?thesis by simp
  next
    case False
    then have "j + n \<le> - 1" by simp
    then have "(10::real) powi (j + n) \<le> 10 powi (- 1)"
      by (rule power_int_increasing) simp
    then have small: "(10::real) powi (j + n) \<le> 1 / 10" by simp
    have "\<bar>y * 10 powi n\<bar> = of_int \<bar>K\<bar> * 10 powi (j + n)"
      by (simp add: scaled abs_mult)
    also have "\<dots> \<le> of_int \<bar>K\<bar> * (1 / 10)"
      using small by (intro mult_left_mono) simp_all
    also have "\<dots> \<le> of_int 10000"
      using K by simp
    finally have "\<bar>round_half_even (y * 10 powi n)\<bar> \<le> 10000"
      by (rule round_half_even_abs_le)
    then have "\<bar>round_half_even (y * 10 powi n)\<bar> < 100000" by simp
    moreover have "py_round y n = of_int (round_half_even (y * 10 powi n)) * 10 powi (- n)"
      by (simp add: py_round_def power_int_minus field_simps)
    ultimately show ?thesis unfolding at_most_5_digits_def by blast
  qed
qed


subsection \<open>The float nearest to a number\<close>

lemma pow2_split: "(2::real) powi (a + b) = 2 powi a * 2 powi b"
  by (simp add: power_int_add)

lemma binary_up_bounds:
  "1 \<le> x \<Longrightarrow> 2 powi (binary_up x) \<le> x \<and> x < 2 powi (binary_up x + 1)"
proof (induction x rule: binary_up.induct)
  case (1 x)
  show ?case
  proof (cases "x < 2")
    case True
    then have "binary_up x = 0" by (subst binary_up.simps) simp
    with True "1.prems" show ?thesis by simp
  next
    case False
    then have e: "binary_up x = binary_up (x / 2) + 1"
      by (subst binary_up.simps) simp
    from False have "1 \<le> x / 2" by simp
    with "1.IH" False
    have ih: "2 powi (binary_up (x / 2)) \<le> x / 2"
      "x / 2 < 2 powi (binary_up (x / 2) + 1)" by simp_all
    have "2 powi (binary_up x) = 2 powi (binary_up (x / 2)) * (2::real)"
      by (simp add: e pow2_split)
    moreover have "2 powi (binary_up x + 1) = 2 powi (binary_up (x / 2) + 1) * (2::real)"
      by (simp add: e pow2_split)
    ultimately show ?thesis using ih by simp
  qed
qed

lemma binary_down_bounds:
  "0 < x \<Longrightarrow> x < 1 \<Longrightarrow>
   2 powi (binary_down x) \<le> x \<and> x < 2 powi (binary_down x + 1)"
proof (induction x rule: binary_down.induct)
  case (1 x)
  from "1.prems" have e: "binary_down x = binary_down (x * 2) - 1"
    by (subst binary_down.simps) simp
  show ?case
  proof (cases "1 \<le> x * 2")
    case True
    then have "binary_down (x * 2) = 0" by (subst binary_down.simps) simp
    with e have "binary_down x = - 1" by simp
    with True "1.prems" show ?thesis by simp
  next
    case False
    with "1.IH" "1.prems"
    have ih: "2 powi (binary_down (x * 2)) \<le> x * 2"
      "x * 2 < 2 powi (binary_down (x * 2) + 1)" by simp_all
    have e': "binary_down (x * 2) = binary_down x + 1" using e by simp
    have "2 powi (binary_down (x * 2)) = 2 powi (binary_down x) * (2::real)"
      unfolding e' by (simp add: pow2_split)
    moreover have "2 powi (binary_down (x * 2) + 1) = 2 powi (binary_down x + 1) * (2::real)"
      unfolding e' by (simp add: pow2_split)
    ultimately show ?thesis using ih by simp
  qed
qed

lemma binary_exponent_lower:
  assumes "x \<noteq> 0"
  shows "2 powi (binary_exponent x) \<le> \<bar>x\<bar>"
proof (cases "1 \<le> \<bar>x\<bar>")
  case True
  then show ?thesis
    using binary_up_bounds [of "\<bar>x\<bar>"] by (simp add: binary_exponent_def)
next
  case False
  with assms have "0 < \<bar>x\<bar>" "\<bar>x\<bar> < 1" by simp_all
  with False show ?thesis
    using binary_down_bounds [of "\<bar>x\<bar>"] by (simp add: binary_exponent_def)
qed

text \<open>The conversion to a float changes a number by at most one part in \<open>2^53\<close>.\<close>

lemma to_double_close: "\<bar>to_double x - x\<bar> \<le> \<bar>x\<bar> / 2 ^ 53"
proof (cases "x = 0")
  case True
  then show ?thesis by (simp add: to_double_def)
next
  case False
  define e where "e = binary_exponent x"
  define s where "s = (2::real) powi (e - 52)"
  have s: "0 < s" by (simp add: s_def)
  have "to_double x - x = (of_int (round_half_even (x / s)) - x / s) * s"
    using False s by (simp add: to_double_def e_def s_def Let_def field_simps)
  then have "\<bar>to_double x - x\<bar> = \<bar>of_int (round_half_even (x / s)) - x / s\<bar> * s"
    using s by (simp add: abs_mult)
  also have "\<dots> \<le> (1 / 2) * s"
    using s round_half_even_close [of "x / s"] by (intro mult_right_mono) simp_all
  also have "\<dots> = 2 powi e / 2 ^ 53"
  proof -
    have "(2::real) powi (53 + (e - 53)) = 2 powi 53 * 2 powi (e - 53)" by (rule pow2_split)
    then have a: "(2::real) powi e = 2 ^ 53 * 2 powi (e - 53)" by simp
    have "(2::real) powi (1 + (e - 53)) = 2 powi 1 * 2 powi (e - 53)" by (rule pow2_split)
    moreover have "1 + (e - 53) = e - 52" by simp
    ultimately have b: "s = 2 * 2 powi (e - 53)" unfolding s_def by simp
    show ?thesis unfolding a b by simp
  qed
  also have "\<dots> \<le> \<bar>x\<bar> / 2 ^ 53"
    using binary_exponent_lower [OF False] by (simp add: e_def divide_right_mono)
  finally show ?thesis .
qed

lemma to_double_zero: "to_double 0 = 0"
  by (simp add: to_double_def)

subsection \<open>Rounding to the nearest integer\<close>

lemma round_half_even_nearest: "\<bar>of_int (round_half_even x) - x\<bar> \<le> \<bar>of_int m - x\<bar>"
proof -
  have f: "of_int \<lfloor>x\<rfloor> \<le> x" "x < of_int \<lfloor>x\<rfloor> + 1" by linarith+
  show ?thesis
  proof (cases "m \<le> \<lfloor>x\<rfloor>")
    case True
    then have "(of_int m :: real) \<le> of_int \<lfloor>x\<rfloor>" by simp
    with f show ?thesis
      by (auto simp: round_half_even_def Let_def)
  next
    case False
    then have "\<lfloor>x\<rfloor> + 1 \<le> m" by simp
    then have "(of_int \<lfloor>x\<rfloor> :: real) + 1 \<le> of_int m" by linarith
    with f show ?thesis
      by (auto simp: round_half_even_def Let_def)
  qed
qed

lemma round_half_even_near_int:
  assumes "\<bar>x - of_int k\<bar> < 1 / 2"
  shows "round_half_even x = k"
proof -
  have "\<bar>of_int (round_half_even x) - x\<bar> \<le> \<bar>of_int k - x\<bar>"
    by (rule round_half_even_nearest)
  with assms have "\<bar>(of_int (round_half_even x) :: real) - of_int k\<bar> < 1" by linarith
  then have "\<bar>(of_int (round_half_even x - k) :: real)\<bar> < 1" by simp
  then have "\<bar>round_half_even x - k\<bar> < 1"
    by (simp only: of_int_abs [symmetric] of_int_less_1_iff)
  then show ?thesis by simp
qed

text \<open>
  Rounding to decimal places picks a nearest multiple of \<open>10^-n\<close>: it moves a number at
  most twice as far from a multiple as the number was, and it returns a multiple that is
  less than half a unit away.
\<close>

lemma py_round_nearest:
  assumes "decimal_places n D"
  shows "\<bar>py_round y n - D\<bar> \<le> 2 * \<bar>y - D\<bar>"
proof -
  let ?s = "(10::real) powi n"
  have s: "0 < ?s" by simp
  from assms obtain m where D: "D = of_int m / ?s" by (auto simp: decimal_places_def)
  have "\<bar>py_round y n - y\<bar> = \<bar>of_int (round_half_even (y * ?s)) - y * ?s\<bar> / ?s"
  proof -
    have "py_round y n - y = (of_int (round_half_even (y * ?s)) - y * ?s) / ?s"
      using s by (simp add: py_round_def field_simps)
    then show ?thesis using s by simp
  qed
  also have "\<dots> \<le> \<bar>of_int m - y * ?s\<bar> / ?s"
    using s round_half_even_nearest [of "y * ?s" m] by (intro divide_right_mono) simp_all
  also have "\<dots> = \<bar>D - y\<bar>"
  proof -
    have "D - y = (of_int m - y * ?s) / ?s" using s by (simp add: D field_simps)
    then show ?thesis using s by simp
  qed
  finally have near: "\<bar>py_round y n - y\<bar> \<le> \<bar>D - y\<bar>" .
  have "py_round y n - D = (py_round y n - y) + (y - D)" by simp
  then have tri: "\<bar>py_round y n - D\<bar> \<le> \<bar>py_round y n - y\<bar> + \<bar>y - D\<bar>"
    by (simp only: abs_triangle_ineq)
  have "\<bar>D - y\<bar> = \<bar>y - D\<bar>" by (rule abs_minus_commute)
  with near have near': "\<bar>py_round y n - y\<bar> \<le> \<bar>y - D\<bar>" by (simp only:)
  have sum: "a \<le> b + c \<Longrightarrow> b \<le> c \<Longrightarrow> a \<le> 2 * c" for a b c :: real by simp
  show ?thesis by (rule sum [OF tri near'])
qed

lemma py_round_stable:
  assumes "decimal_places n z" and "\<bar>y - z\<bar> * 10 powi n < 1 / 2"
  shows "py_round y n = z"
proof -
  let ?s = "(10::real) powi n"
  have s: "0 < ?s" by simp
  from assms(1) obtain m where z: "z = of_int m / ?s" by (auto simp: decimal_places_def)
  have "y * ?s - of_int m = (y - z) * ?s" using s by (simp add: z field_simps)
  then have "\<bar>y * ?s - of_int m\<bar> = \<bar>y - z\<bar> * ?s" using s by (simp add: abs_mult)
  with assms(2) have "round_half_even (y * ?s) = m"
    by (intro round_half_even_near_int) simp
  then show ?thesis by (simp add: py_round_def z)
qed

subsection \<open>Five-digit numbers survive a small perturbation\<close>

text \<open>
  A nonzero number with at most five significant digits is a five-digit integer times the
  power of ten given by its decimal exponent.
\<close>

lemma five_digits_canonical:
  assumes "at_most_5_digits D" and "D \<noteq> 0"
  obtains K where "D = of_int K * 10 powi (decimal_exponent D - 4)"
    and "10000 * 10 powi (decimal_exponent D - 4) \<le> \<bar>D\<bar>"
    and "\<bar>D\<bar> \<le> 99999 * 10 powi (decimal_exponent D - 4)"
proof -
  define e where "e = decimal_exponent D"
  define s where "s = (10::real) powi (e - 4)"
  define K where "K = round_half_even (D / s)"
  have s: "0 < s" by (simp add: s_def)
  have "format_5g D = D" using assms(1) by (rule format_5g_fixed)
  then have D: "D = of_int K * s"
    using assms(2) by (simp add: format_5g_def e_def s_def K_def Let_def)
  have "(10::real) powi (4 + (e - 4)) = 10 powi 4 * 10 powi (e - 4)" by (rule pow10_split)
  then have lo_pow: "(10::real) powi e = 10000 * s" by (simp add: s_def)
  have "(10::real) powi (5 + (e - 4)) = 10 powi 5 * 10 powi (e - 4)" by (rule pow10_split)
  moreover have "5 + (e - 4) = e + 1" by simp
  ultimately have hi_pow: "(10::real) powi (e + 1) = 100000 * s" by (simp add: s_def)
  have "10 powi e \<le> \<bar>D\<bar>"
    unfolding e_def using assms(2) by (rule decimal_exponent_bounds)
  then have lo: "10000 * s \<le> \<bar>D\<bar>" by (simp only: lo_pow)
  have "\<bar>D\<bar> < 10 powi (e + 1)"
    unfolding e_def using assms(2) by (rule decimal_exponent_bounds)
  then have "\<bar>D\<bar> < 100000 * s" by (simp only: hi_pow)
  moreover have "\<bar>D\<bar> = of_int \<bar>K\<bar> * s" using s by (simp add: D abs_mult)
  ultimately have "(of_int \<bar>K\<bar> :: real) * s < 100000 * s" by simp
  then have "(of_int \<bar>K\<bar> :: real) < 100000" using s by (simp only: mult_less_cancel_right_pos)
  then have "\<bar>K\<bar> < 100000" by simp
  then have "\<bar>K\<bar> \<le> 99999" by simp
  then have "(of_int \<bar>K\<bar> :: real) \<le> 99999" by simp
  then have "(of_int \<bar>K\<bar> :: real) * s \<le> 99999 * s" using s by (simp only: mult_le_cancel_right_pos)
  then have hi: "\<bar>D\<bar> \<le> 99999 * s" using \<open>\<bar>D\<bar> = of_int \<bar>K\<bar> * s\<close> by simp
  from D lo hi show thesis
    using that [of K] by (simp add: e_def s_def)
qed

text \<open>
  If a number differs from a five-digit number \<open>D\<close> by at most one part in \<open>2^52\<close>, the
  format gives \<open>D\<close>.
\<close>

lemma format_5g_stable:
  assumes digits: "at_most_5_digits D" and close: "\<bar>y - D\<bar> \<le> \<bar>D\<bar> / 2 ^ 52"
  shows "format_5g y = D"
proof (cases "D = 0")
  case True
  with close have "y = 0" by simp
  with True show ?thesis by (simp add: format_5g_def)
next
  case False
  define e where "e = decimal_exponent D"
  define s where "s = (10::real) powi (e - 4)"
  have s: "0 < s" by (simp add: s_def)
  from five_digits_canonical [OF digits False]
  obtain K where D: "D = of_int K * s" and lo: "10000 * s \<le> \<bar>D\<bar>" and hi: "\<bar>D\<bar> \<le> 99999 * s"
    unfolding e_def s_def by blast
  have "\<bar>D\<bar> / 2 ^ 52 \<le> 99999 * s / 2 ^ 52" using hi by (simp add: divide_right_mono)
  also have "\<dots> < s / 20" using s by simp
  finally have eps: "\<bar>y - D\<bar> < s / 20" using close by simp
  have y_lo: "1000 * s < \<bar>y\<bar>" using eps lo s by linarith
  have y_hi: "\<bar>y\<bar> < 100000 * s" using eps hi s by linarith
  have y0: "y \<noteq> 0" using y_lo s by auto
  define ey where "ey = decimal_exponent y"
  have "(10::real) powi (3 + (e - 4)) = 10 powi 3 * 10 powi (e - 4)" by (rule pow10_split)
  moreover have "3 + (e - 4) = e - 1" by simp
  ultimately have p3: "(10::real) powi (e - 1) = 1000 * s" by (simp add: s_def)
  have "(10::real) powi (5 + (e - 4)) = 10 powi 5 * 10 powi (e - 4)" by (rule pow10_split)
  moreover have "5 + (e - 4) = e + 1" by simp
  ultimately have p5: "(10::real) powi (e + 1) = 100000 * s" by (simp add: s_def)
  have "(10::real) powi ey \<le> \<bar>y\<bar>"
    unfolding ey_def using y0 by (rule decimal_exponent_bounds)
  with y_hi have "(10::real) powi ey < 10 powi (e + 1)" by (simp add: p5)
  then have up: "ey < e + 1" by (rule pow10_less_cancel)
  have "\<bar>y\<bar> < 10 powi (ey + 1)"
    unfolding ey_def using y0 by (rule decimal_exponent_bounds)
  with y_lo have "(10::real) powi (e - 1) < 10 powi (ey + 1)" by (simp add: p3)
  then have "e - 1 < ey + 1" by (rule pow10_less_cancel)
  with up consider "ey = e" | "ey = e - 1" by linarith
  then show ?thesis
  proof cases
    case 1
    have "y / s - of_int K = (y - D) / s" using s by (simp add: D field_simps)
    then have "\<bar>y / s - of_int K\<bar> = \<bar>y - D\<bar> / s" using s by simp
    also have "\<dots> < 1 / 2" using eps s by (simp add: pos_divide_less_eq)
    finally have "round_half_even (y / s) = K" by (rule round_half_even_near_int)
    then have "format_5g y = of_int K * s"
      using y0 1 by (simp add: format_5g_def ey_def [symmetric] s_def Let_def)
    with D show ?thesis by simp
  next
    case 2
    define s' where "s' = (10::real) powi (ey - 4)"
    have "(10::real) powi (1 + (ey - 4)) = 10 powi 1 * 10 powi (ey - 4)" by (rule pow10_split)
    moreover have "1 + (ey - 4) = e - 4" using 2 by simp
    ultimately have ss: "s = 10 * s'" by (simp add: s_def s'_def)
    have s': "0 < s'" by (simp add: s'_def)
    have "y / s' - of_int (10 * K) = 10 * ((y - D) / s)"
      using s' by (simp add: D ss field_simps)
    then have "\<bar>y / s' - of_int (10 * K)\<bar> = \<bar>10 * ((y - D) / s)\<bar>" by (simp only:)
    also have "\<dots> = 10 * (\<bar>y - D\<bar> / s)"
      using s by (simp only: abs_mult abs_divide abs_numeral abs_of_pos)
    also have "\<dots> < 1 / 2" using eps s by (simp add: pos_divide_less_eq)
    finally have "round_half_even (y / s') = 10 * K" by (rule round_half_even_near_int)
    then have "format_5g y = of_int (10 * K) * s'"
      using y0 by (simp add: format_5g_def ey_def [symmetric] s'_def Let_def)
    with D ss show ?thesis by simp
  qed
qed

lemma format_5g_to_double: "format_5g (to_double (format_5g p)) = format_5g p"
proof (rule format_5g_stable)
  show "at_most_5_digits (format_5g p)" by (rule format_5g_digits)
  have "\<bar>to_double (format_5g p) - format_5g p\<bar> \<le> \<bar>format_5g p\<bar> / 2 ^ 53"
    by (rule to_double_close)
  also have "\<dots> \<le> \<bar>format_5g p\<bar> / 2 ^ 52" by (simp add: field_simps)
  finally show "\<bar>to_double (format_5g p) - format_5g p\<bar> \<le> \<bar>format_5g p\<bar> / 2 ^ 52" .
qed
section \<open>Price formatting: properties\<close>

lemma format_price_unknown:
  "specs coin = None \<Longrightarrow> format_price specs price coin = Inr (to_double (format_5g price))"
  by (simp add: format_price_def)

lemma format_price_known:
  "specs coin = Some spec \<Longrightarrow>
   format_price specs price coin =
     Inr (py_round (to_double (format_5g price))
            ((if asset_id spec \<ge> 10000 then 8 else 6) - sz_decimals spec))"
  by (simp add: format_price_def Let_def)

text \<open>
  C6 (two-stage price rounding). For a symbol of the cache with asset id below 10000 and
  size precision \<open>s\<close> the formatted price is the price rounded to five significant digits,
  taken as a float, and then rounded to \<open>6 - s\<close> decimal places; with asset id 10000 or
  more the second rounding is to \<open>8 - s\<close> places; for an unknown symbol only the first
  rounding is applied. The first rounding yields at most five significant digits within
  half a unit of the fifth digit, the float differs from them by at most one part in
  \<open>2^53\<close>, and the second rounding yields a multiple of \<open>10^-n\<close> within half of \<open>10^-n\<close>
  of that float.
\<close>

theorem format_price_two_stage:
  "(\<forall>spec. specs coin = Some spec \<and> asset_id spec < 10000 \<longrightarrow>
      format_price specs p coin
        = Inr (py_round (to_double (format_5g p)) (6 - sz_decimals spec)))
   \<and> (\<forall>spec. specs coin = Some spec \<and> 10000 \<le> asset_id spec \<longrightarrow>
      format_price specs p coin
        = Inr (py_round (to_double (format_5g p)) (8 - sz_decimals spec)))
   \<and> (specs coin = None \<longrightarrow> format_price specs p coin = Inr (to_double (format_5g p)))
   \<and> at_most_5_digits (format_5g p)
   \<and> (p \<noteq> 0 \<longrightarrow> \<bar>format_5g p - p\<bar> \<le> 10 powi (decimal_exponent p - 4) / 2)
   \<and> \<bar>to_double (format_5g p) - format_5g p\<bar> \<le> \<bar>format_5g p\<bar> / 2 ^ 53
   \<and> (\<forall>n. decimal_places n (py_round (to_double (format_5g p)) n)
          \<and> \<bar>py_round (to_double (format_5g p)) n - to_double (format_5g p)\<bar>
              \<le> 10 powi (- n) / 2)"
proof -
  have perp: "\<forall>spec. specs coin = Some spec \<and> asset_id spec < 10000 \<longrightarrow>
      format_price specs p coin
        = Inr (py_round (to_double (format_5g p)) (6 - sz_decimals spec))"
    by (simp add: format_price_known)
  have spot: "\<forall>spec. specs coin = Some spec \<and> 10000 \<le> asset_id spec \<longrightarrow>
      format_price specs p coin
        = Inr (py_round (to_double (format_5g p)) (8 - sz_decimals spec))"
    by (simp add: format_price_known)
  have unknown: "specs coin = None \<longrightarrow> format_price specs p coin = Inr (to_double (format_5g p))"
    by (simp add: format_price_unknown)
  have first: "p \<noteq> 0 \<longrightarrow> \<bar>format_5g p - p\<bar> \<le> 10 powi (decimal_exponent p - 4) / 2"
    using format_5g_close [of p] by blast
  have second: "\<forall>n. decimal_places n (py_round (to_double (format_5g p)) n)
          \<and> \<bar>py_round (to_double (format_5g p)) n - to_double (format_5g p)\<bar>
              \<le> 10 powi (- n) / 2"
    using py_round_decimal_places py_round_close by blast
  show ?thesis
    by (intro conjI) (rule perp spot unknown format_5g_digits first to_double_close second)+
qed

text \<open>
  The examples, with the prices written as fractions in lowest terms: the float 12.345
  (\<open>to_double (2469 / 200)\<close>) lies above the decimal 12.345, so for ETH (two decimal
  places) it is rounded up to 12.35; 123.456 (\<open>15432 / 125\<close>) becomes 123.46 and then
  123.5 for BTC (one decimal place); 0.000123456 (\<open>1929 / 15625000\<close>) becomes 0.00012346
  and then 0.000123 for a spot asset with six decimal places; for an unknown symbol
  0.123456789 becomes the float 0.12346.
\<close>

lemma format_price_stages_examples:
  "to_double (2469 / 200) = 6949617174986097 / 562949953421312"
  "format_5g (6949617174986097 / 562949953421312) = 2469 / 200"
  "py_round (6949617174986097 / 562949953421312) 2 = 247 / 20"
  "format_5g (15432 / 125) = 6173 / 50"
  "to_double (6173 / 50) = 8687725156174397 / 70368744177664"
  "py_round (8687725156174397 / 70368744177664) 1 = 247 / 2"
  "format_5g (1929 / 15625000) = 6173 / 50000000"
  "to_double (6173 / 50000000) = 2277435023340181 / 18446744073709551616"
  "py_round (2277435023340181 / 18446744073709551616) 6 = 123 / 1000000"
  "format_5g (123456789 / 1000000000) = 6173 / 50000"
  "to_double (6173 / 50000) = 8896230559922583 / 72057594037927936"
  by (simp_all add: to_double_def binary_exponent_def binary_up.simps binary_down.simps
      format_5g_def decimal_exponent_def exponent_up.simps exponent_down.simps
      py_round_def round_half_even_def Let_def)

theorem format_price_two_stage_witness:
  "format_price example_specs (to_double (2469 / 200)) ''ETH'' = Inr (247 / 20)
   \<and> format_price example_specs (15432 / 125) ''BTC'' = Inr (247 / 2)
   \<and> format_price example_spot_specs (1929 / 15625000) ''PURR'' = Inr (123 / 1000000)
   \<and> format_price example_specs (123456789 / 1000000000) ''XYZ''
       = Inr (8896230559922583 / 72057594037927936)"
proof -
  note t = format_price_two_stage
  note ex = format_price_stages_examples
  have eth: "example_specs ''ETH''
      = Some \<lparr>asset_id = 1, sz_decimals = 4, max_leverage = 25, only_isolated = False\<rparr>"
    by (simp add: example_specs_def get_asset_specs_def example_universe_def Let_def)
  have spot: "example_spot_specs ''PURR''
      = Some \<lparr>asset_id = 10000, sz_decimals = 2, max_leverage = 1, only_isolated = False\<rparr>"
    by (simp add: example_spot_specs_def)
  from t [of example_specs "''ETH''" "to_double (2469 / 200)"]
  have a: "format_price example_specs (to_double (2469 / 200)) ''ETH'' = Inr (247 / 20)"
    by (simp add: eth ex)
  from t [of example_specs "''BTC''" "15432 / 125"]
  have b: "format_price example_specs (15432 / 125) ''BTC'' = Inr (247 / 2)"
    by (simp add: example_specs_BTC ex)
  from t [of example_spot_specs "''PURR''" "1929 / 15625000"]
  have c: "format_price example_spot_specs (1929 / 15625000) ''PURR'' = Inr (123 / 1000000)"
    by (simp add: spot ex)
  from t [of example_specs "''XYZ''" "123456789 / 1000000000"]
  have d: "format_price example_specs (123456789 / 1000000000) ''XYZ''
      = Inr (8896230559922583 / 72057594037927936)"
    by (simp add: example_specs_unknown ex)
  from a b c d show ?thesis by simp
qed

text \<open>
  The two roundings applied to their own result give that result again. Either the
  five-digit number lies on the grid of the second rounding, then the result is so close
  to it that the format recovers it; or the grid is coarser, then the result itself has
  at most five digits and its float rounds back to it.
\<close>

lemma two_stage_fixed_point:
  "py_round (to_double (format_5g (py_round (to_double (format_5g p)) n))) n
     = py_round (to_double (format_5g p)) n"
proof -
  define D where "D = format_5g p"
  define d where "d = to_double D"
  define z where "z = py_round d n"
  have digits: "at_most_5_digits D" unfolding D_def by (rule format_5g_digits)
  have close: "\<bar>d - D\<bar> \<le> \<bar>D\<bar> / 2 ^ 53" unfolding d_def by (rule to_double_close)
  from digits obtain K j where DK: "D = of_int K * 10 powi j" and K: "\<bar>K\<bar> < 100000"
    by (auto simp: at_most_5_digits_def)
  have scaled: "D * 10 powi n = of_int K * 10 powi (j + n)"
    by (simp add: DK pow10_split)
  have "py_round (to_double (format_5g z)) n = z"
  proof (cases "0 \<le> j + n")
    case True
    then have "D * 10 powi n = of_int (K * 10 ^ nat (j + n))"
      by (simp add: scaled pow10_nonneg_exp)
    then have "D = of_int (K * 10 ^ nat (j + n)) / 10 powi n"
      by (simp add: field_simps)
    then have "decimal_places n D" unfolding decimal_places_def by blast
    then have "\<bar>z - D\<bar> \<le> 2 * \<bar>d - D\<bar>" unfolding z_def by (rule py_round_nearest)
    also have "\<dots> \<le> 2 * (\<bar>D\<bar> / 2 ^ 53)" using close by simp
    also have "\<dots> = \<bar>D\<bar> / 2 ^ 52" by simp
    finally have "format_5g z = D" using digits by (intro format_5g_stable)
    then show ?thesis by (simp add: d_def [symmetric] z_def [symmetric])
  next
    case False
    then have "j + n \<le> - 1" by simp
    then have "(10::real) powi (j + n) \<le> 10 powi (- 1)"
      by (rule power_int_increasing) simp
    then have small: "(10::real) powi (j + n) \<le> 1 / 10" by simp
    let ?s = "(10::real) powi n"
    have s: "0 < ?s" by simp
    have "\<bar>D * ?s\<bar> = \<bar>of_int K * 10 powi (j + n)\<bar>" by (simp only: scaled)
    then have "\<bar>D\<bar> * ?s = of_int \<bar>K\<bar> * 10 powi (j + n)"
      by (simp add: abs_mult)
    also have "\<dots> \<le> of_int \<bar>K\<bar> * (1 / 10)"
      using small by (intro mult_left_mono) simp_all
    also have "\<dots> \<le> 99999 / 10" using K by simp
    finally have A: "\<bar>D\<bar> * ?s \<le> 99999 / 10" .
    have "\<bar>d\<bar> \<le> \<bar>D\<bar> + \<bar>D\<bar> / 2 ^ 53" using close by linarith
    then have "\<bar>d\<bar> * ?s \<le> (\<bar>D\<bar> + \<bar>D\<bar> / 2 ^ 53) * ?s"
      using s by (simp only: mult_le_cancel_right_pos)
    also have "\<dots> = \<bar>D\<bar> * ?s + (\<bar>D\<bar> * ?s) / 2 ^ 53" by (simp add: field_simps)
    also have "\<dots> \<le> 99999 / 10 + (99999 / 10) / 2 ^ 53"
      using A by (intro add_mono divide_right_mono) simp_all
    also have "\<dots> \<le> of_int 10000" by simp
    finally have "\<bar>d * ?s\<bar> \<le> of_int 10000" using s by (simp add: abs_mult)
    then have k: "\<bar>round_half_even (d * ?s)\<bar> \<le> 10000" by (rule round_half_even_abs_le)
    define k where "k = round_half_even (d * ?s)"
    have zk: "z = of_int k / ?s" by (simp add: z_def py_round_def k_def)
    have grid: "decimal_places n z" unfolding decimal_places_def using zk by blast
    have "z = of_int k * 10 powi (- n)" by (simp add: zk power_int_minus field_simps)
    moreover have "\<bar>k\<bar> < 100000" using k by (simp add: k_def)
    ultimately have "at_most_5_digits z" unfolding at_most_5_digits_def by blast
    then have fixed: "format_5g z = z" by (rule format_5g_fixed)
    have "\<bar>z\<bar> * ?s = of_int \<bar>k\<bar>" using s by (simp add: zk)
    also have "\<dots> \<le> 10000" using k by (simp add: k_def)
    finally have zs: "\<bar>z\<bar> * ?s \<le> 10000" .
    have "\<bar>to_double z - z\<bar> \<le> \<bar>z\<bar> / 2 ^ 53" by (rule to_double_close)
    then have "\<bar>to_double z - z\<bar> * ?s \<le> (\<bar>z\<bar> / 2 ^ 53) * ?s"
      using s by (simp only: mult_le_cancel_right_pos)
    also have "\<dots> = (\<bar>z\<bar> * ?s) / 2 ^ 53" by simp
    also have "\<dots> \<le> 10000 / 2 ^ 53" using zs by (intro divide_right_mono) simp_all
    also have "\<dots> < 1 / 2" by simp
    finally have "py_round (to_double z) n = z" using grid by (intro py_round_stable)
    with fixed show ?thesis by simp
  qed
  then show ?thesis by (simp add: z_def d_def D_def)
qed

text \<open>
  C7 (idempotence). Formatting a formatted price gives the same price again, for every
  price and every symbol, in the cache or not.
\<close>

theorem format_price_idempotent:
  "then_do (format_price specs p coin) (\<lambda>q. format_price specs q coin)
     = format_price specs p coin"
proof (cases "specs coin")
  case None
  then show ?thesis by (simp add: format_price_unknown format_5g_to_double)
next
  case (Some spec)
  then show ?thesis by (simp add: format_price_known two_stage_fixed_point)
qed

lemma format_price_idempotent_example:
  "format_price example_specs (15432 / 125) ''BTC'' = Inr (247 / 2)
   \<and> format_price example_specs (247 / 2) ''BTC'' = Inr (247 / 2)"
  by (simp add: format_price_known example_specs_BTC to_double_def binary_exponent_def
      binary_up.simps format_5g_def decimal_exponent_def exponent_up.simps py_round_def
      round_half_even_def Let_def)
section \<open>Worked examples\<close>

text \<open>
  The exit evaluation on the position of the specification's example (buy, tp1 = 110,
  tp2 = 120, sl = 90, aware max exit time 1000): nothing at price 105, TP1 at 111, SL at
  89, and the time-based exit once the clock reaches the max exit time, also when a price
  condition holds in the same pass.
\<close>

lemma exit_checks_examples:
  "exit_checks 0 example_buy 105 = Inr (False, Empty_reason)"
  "exit_checks 0 example_buy 111 = Inr (True, Hit TP1 111 GE 110)"
  "exit_checks 0 example_buy 89 = Inr (True, Hit SL 89 LE 90)"
  "exit_checks 1000 example_buy 105 = Inr (True, Max_exit_time_reached)"
  "exit_checks 1000 example_buy 111 = Inr (True, Max_exit_time_reached)"
  by (simp_all add: exit_checks_def now_ge_def price_checks_def example_buy_def)

text \<open>
  A request whose Max Exit Time has no UTC offset is accepted, and the registered position
  carries a naive max exit time.
\<close>

lemma naive_max_exit_time_accepted:
  "\<exists>b st calls.
     receive_signal (example_env 5) empty_state (JObj example_naive_fields) = (Success b, st, calls)
     \<and> map fst (active_positions st) = [''BTC_5'']
     \<and> map (max_exit_time \<circ> snd) (active_positions st) = [Naive 1735689600]
     \<and> map (tp1 \<circ> snd) (active_positions st) = [110]"
  by (simp add: intake_eval example_naive_fields_def register_position_def make_trade_data_def
      empty_state_def Let_def)
end
